theory Spec2Isabelle
  imports Complex_Main "HOL-Library.Word"
begin

section \<open>Data model\<close>

text \<open>
  The gateway keeps three stores: the Mongo collection of events (the idempotency
  ledger, \<^verbatim>\<open>model.ts\<close>), the main job queue and the dead-letter queue
  (\<^verbatim>\<open>queue.ts\<close>). Asynchronous functions of the source become functions that take
  the current world and return their result together with the new world; a rejected
  promise is the \<open>Inl\<close> of a sum.
\<close>

datatype json = JNull | JBool bool | JNum int | JStr string | JArr "json list"
  | JObj "(string \<times> json) list"

text \<open>\<^verbatim>\<open>Record<string, unknown>\<close>: the fields of an object, in order.\<close>

type_synonym payload = "(string \<times> json) list"

text \<open>A \<^verbatim>\<open>Date\<close>, in milliseconds.\<close>

type_synonym Date = nat

text \<open>\<^verbatim>\<open>EventJobData\<close> of \<^verbatim>\<open>queue.ts\<close>.\<close>

record EventJobData =
  eventId :: string
  type :: string
  payload :: payload
  correlationId :: "string option"

datatype EventStatus = ROUTING_PENDING | ROUTED | FAILED

text \<open>
  \<^verbatim>\<open>IEvent\<close> of \<^verbatim>\<open>model.ts\<close>: the four fields it shares with the job data, then
  the ledger's own.
\<close>

record IEvent = EventJobData +
  status :: EventStatus
  attempts :: nat
  error :: "string option"
  processedAt :: "Date option"
  createdAt :: Date
  updatedAt :: Date

text \<open>
  What the source can throw. Only the duplicate-key error of the store carries the
  \<^verbatim>\<open>code\<close> 11000 that \<^verbatim>\<open>createEvent\<close> looks for.
\<close>

datatype exn = ValidationError | DuplicateKey | RoutingUnavailable | QueueFault | TypeError

fun code :: "exn \<Rightarrow> nat option" where
  "code DuplicateKey = Some 11000"
| "code _ = None"

text \<open>
  \<^verbatim>\<open>error.message\<close>. Only the routing service's text is written in the source
  (\<^verbatim>\<open>service.ts\<close>); the others stand for whatever the library prints.
\<close>

fun exn_message :: "exn \<Rightarrow> string" where
  "exn_message ValidationError = ''Event validation failed''"
| "exn_message DuplicateKey = ''E11000 duplicate key error''"
| "exn_message RoutingUnavailable = ''Routing service temporarily unavailable''"
| "exn_message QueueFault = ''queue operation failed''"
| "exn_message TypeError = ''invalid argument''"

subsection \<open>Jobs and queues\<close>

datatype JobId = Custom string | Auto nat

datatype JobState = waiting | active | delayed | completed | failed

text \<open>
  \<^verbatim>\<open>defaultJobOptions\<close> of the main queue: the number of attempts and the delay of the
  exponential backoff.
\<close>

record JobsOptions =
  opt_attempts :: nat
  backoff_delay :: nat

record 'd Job =
  job_id :: JobId
  job_name :: string
  job_data :: 'd
  job_opts :: JobsOptions
  attemptsMade :: nat
  job_state :: JobState

record 'd Queue =
  jobs :: "'d Job list"
  next_id :: nat
  defaultJobOptions :: JobsOptions

text \<open>The argument of \<^verbatim>\<open>addToDLQ\<close>; \<^verbatim>\<open>failedAt\<close> is kept as the instant it prints.\<close>

record DeadLetterEntry =
  originalJob :: EventJobData
  dlq_error :: string
  failedAt :: Date
  dlq_attempts :: nat

subsection \<open>The world\<close>

text \<open>
  Every call that leaves the process is recorded in \<open>calls\<close>, in order: the store's
  operations with the event they name (an update also with what it changes), the
  routing service, the queues' operations with the queue's name, and the retries the
  main queue schedules, with their delay. A document that fails the schema's
  validators is never sent to the store, so that \<^verbatim>\<open>save\<close> is not recorded.
\<close>

datatype update = Inc_attempts | Set_status EventStatus

datatype call =
    DbFindOne string
  | DbSave string
  | DbFindOneAndUpdate string update
  | Route string
  | QueueAdd string string
  | QueueGetJobs string
  | JobRemove string JobId
  | ScheduleRetry JobId nat

record world =
  ledger :: "IEvent list"
  eventQueue :: "EventJobData Queue"
  deadLetterQueue :: "DeadLetterEntry Queue"
  clock :: Date
  calls :: "call list"

definition emit :: "call \<Rightarrow> world \<Rightarrow> world" where
  "emit c w = w\<lparr>calls := calls w @ [c]\<rparr>"

section \<open>The store\<close>

text \<open>
  The collection is a list of documents. \<^verbatim>\<open>findOne\<close> returns the first document with
  the event id, \<^verbatim>\<open>findOneAndUpdate\<close> (without \<^verbatim>\<open>upsert\<close>, with \<^verbatim>\<open>new: true\<close>)
  updates the first such document and returns it updated, or returns null and changes
  nothing. \<^verbatim>\<open>save\<close> first runs the schema's \<^verbatim>\<open>required\<close> validators (a required
  string must be non-empty), then inserts under the unique index on \<^verbatim>\<open>eventId\<close>.
  The store is taken to be reachable.
\<close>

definition findOne :: "string \<Rightarrow> IEvent list \<Rightarrow> IEvent option" where
  "findOne eid docs = find (\<lambda>d. eventId d = eid) docs"

fun update_first :: "string \<Rightarrow> (IEvent \<Rightarrow> IEvent) \<Rightarrow> IEvent list \<Rightarrow> IEvent list" where
  "update_first eid f [] = []"
| "update_first eid f (d # ds) =
     (if eventId d = eid then f d # ds else d # update_first eid f ds)"

definition findOneAndUpdate ::
  "string \<Rightarrow> (IEvent \<Rightarrow> IEvent) \<Rightarrow> IEvent list \<Rightarrow> IEvent option \<times> IEvent list" where
  "findOneAndUpdate eid f docs =
     (case findOne eid docs of
        None \<Rightarrow> (None, docs)
      | Some d \<Rightarrow> (Some (f d), update_first eid f docs))"

definition validate :: "IEvent \<Rightarrow> bool" where
  "validate d = (eventId d \<noteq> [] \<and> type d \<noteq> [])"

definition save :: "IEvent \<Rightarrow> IEvent list \<Rightarrow> exn + IEvent \<times> IEvent list" where
  "save d docs =
     (if \<not> validate d then Inl ValidationError
      else if findOne (eventId d) docs \<noteq> None then Inl DuplicateKey
      else Inr (d, docs @ [d]))"

section \<open>The repository\<close>

text \<open>\<^verbatim>\<open>new Event({...})\<close> of \<^verbatim>\<open>createEvent\<close>, with the schema's defaults and timestamps.\<close>

definition new_Event :: "EventJobData \<Rightarrow> Date \<Rightarrow> IEvent" where
  "new_Event data now =
     \<lparr>eventId = eventId data, type = type data, payload = payload data,
      correlationId = correlationId data,
      status = ROUTING_PENDING, attempts = 0, error = None, processedAt = None,
      createdAt = now, updatedAt = now\<rparr>"

definition eventExists :: "string \<Rightarrow> world \<Rightarrow> bool \<times> world" where
  "eventExists eid w = (findOne eid (ledger w) \<noteq> None, emit (DbFindOne eid) w)"

definition getEventById :: "string \<Rightarrow> world \<Rightarrow> IEvent option \<times> world" where
  "getEventById eid w = (findOne eid (ledger w), emit (DbFindOne eid) w)"

definition createEvent :: "EventJobData \<Rightarrow> world \<Rightarrow> (exn + IEvent option) \<times> world" where
  "createEvent data w =
     (let w1 = (if validate (new_Event data (clock w)) then emit (DbSave (eventId data)) w
                else w)
      in case save (new_Event data (clock w)) (ledger w) of
           Inr (d, docs) \<Rightarrow> (Inr (Some d), w1\<lparr>ledger := docs\<rparr>)
         | Inl e \<Rightarrow> if code e = Some 11000 then (Inr None, w1) else (Inl e, w1))"

text \<open>A sequence of \<^verbatim>\<open>createEvent\<close> calls, each at its own time.\<close>

fun createEvents ::
  "(Date \<times> EventJobData) list \<Rightarrow> world \<Rightarrow> (exn + IEvent option) list \<times> world" where
  "createEvents [] w = ([], w)"
| "createEvents ((t, d) # ds) w =
     (let (r, w1) = createEvent d (w\<lparr>clock := t\<rparr>);
          (rs, w2) = createEvents ds w1
      in (r # rs, w2))"

definition rows :: "string \<Rightarrow> world \<Rightarrow> IEvent list" where
  "rows eid w = filter (\<lambda>d. eventId d = eid) (ledger w)"

definition updateEventStatus ::
  "string \<Rightarrow> EventStatus \<Rightarrow> (IEvent \<Rightarrow> IEvent) \<Rightarrow> world \<Rightarrow> IEvent option \<times> world" where
  "updateEventStatus eid st additionalData w =
     (let (r, docs) = findOneAndUpdate eid
            (\<lambda>d. (additionalData (d\<lparr>status := st\<rparr>))\<lparr>updatedAt := clock w\<rparr>) (ledger w)
      in (r, emit (DbFindOneAndUpdate eid (Set_status st)) w\<lparr>ledger := docs\<rparr>))"

definition incrementEventAttempts :: "string \<Rightarrow> world \<Rightarrow> IEvent option \<times> world" where
  "incrementEventAttempts eid w =
     (let (r, docs) = findOneAndUpdate eid
            (\<lambda>d. d\<lparr>attempts := attempts d + 1, updatedAt := clock w\<rparr>) (ledger w)
      in (r, emit (DbFindOneAndUpdate eid Inc_attempts) w\<lparr>ledger := docs\<rparr>))"

definition markEventFailed :: "string \<Rightarrow> string \<Rightarrow> world \<Rightarrow> IEvent option \<times> world" where
  "markEventFailed eid err w =
     (let (r, docs) = findOneAndUpdate eid
            (\<lambda>d. d\<lparr>status := FAILED, error := Some err, updatedAt := clock w\<rparr>) (ledger w)
      in (r, emit (DbFindOneAndUpdate eid (Set_status FAILED)) w\<lparr>ledger := docs\<rparr>))"

definition markEventRouted :: "string \<Rightarrow> world \<Rightarrow> IEvent option \<times> world" where
  "markEventRouted eid w =
     (let (r, docs) = findOneAndUpdate eid
            (\<lambda>d. d\<lparr>status := ROUTED, processedAt := Some (clock w), updatedAt := clock w\<rparr>)
            (ledger w)
      in (r, emit (DbFindOneAndUpdate eid (Set_status ROUTED)) w\<lparr>ledger := docs\<rparr>))"

section \<open>The service\<close>

definition ROUTING_DELAY_MS :: nat where
  "ROUTING_DELAY_MS = 2000"

text \<open>
  \<^verbatim>\<open>simulateRoutingService\<close>: waits, then throws when \<^verbatim>\<open>Math.random()\<close>, here the
  argument \<open>rnd\<close>, is below 0.1.
\<close>

definition simulateRoutingService ::
  "rat \<Rightarrow> string \<Rightarrow> payload \<Rightarrow> world \<Rightarrow> (exn + bool) \<times> world" where
  "simulateRoutingService rnd eid p w =
     (let w1 = emit (Route eid) (w\<lparr>clock := clock w + ROUTING_DELAY_MS\<rparr>)
      in if rnd < 1 / 10 then (Inl RoutingUnavailable, w1) else (Inr True, w1))"

record ProcessResult =
  success :: bool
  message :: string

text \<open>
  \<^verbatim>\<open>processEvent\<close>. The routing call is the only one inside the \<^verbatim>\<open>try\<close>, and its
  error is thrown again; an error of \<^verbatim>\<open>createEvent\<close> leaves the function before the
  attempt counter is touched.
\<close>

definition processEvent ::
  "rat \<Rightarrow> EventJobData \<Rightarrow> nat \<Rightarrow> world \<Rightarrow> (exn + ProcessResult) \<times> world" where
  "processEvent rnd data made w =
     (let (exists, w1) = eventExists (eventId data) w;
          (existingEvent, w2) =
            (if exists then getEventById (eventId data) w1 else (None, w1))
      in if exists \<and> map_option status existingEvent = Some ROUTED
         then (Inr \<lparr>success = True,
                     message = ''Event already processed (idempotent skip)''\<rparr>, w2)
         else
           (case (if \<not> exists then createEvent data w2 else (Inr None, w2)) of
              (Inl e, w3) \<Rightarrow> (Inl e, w3)
            | (Inr _, w3) \<Rightarrow>
                (let (_, w4) = incrementEventAttempts (eventId data) w3
                 in case simulateRoutingService rnd (eventId data) (payload data) w4 of
                      (Inl e, w5) \<Rightarrow> (Inl e, w5)
                    | (Inr _, w5) \<Rightarrow>
                        (let (_, w6) = markEventRouted (eventId data) w5
                         in (Inr \<lparr>success = True,
                                    message = ''Event routed successfully''\<rparr>, w6)))))"

definition handleFinalFailure :: "EventJobData \<Rightarrow> string \<Rightarrow> world \<Rightarrow> world" where
  "handleFinalFailure data err w = snd (markEventFailed (eventId data) err w)"

section \<open>The queues\<close>

text \<open>
  \<^verbatim>\<open>Queue.add\<close>: a job given a \<^verbatim>\<open>jobId\<close> that the queue already holds is not added
  again (the deduplication \<^verbatim>\<open>addEventToQueue\<close> relies on); a job without one, or
  with the empty string for one, gets the queue's next id. A new job waits, with the
  queue's default options.
\<close>

definition new_Job :: "JobId \<Rightarrow> string \<Rightarrow> 'd \<Rightarrow> JobsOptions \<Rightarrow> 'd Job" where
  "new_Job i n d opts =
     \<lparr>job_id = i, job_name = n, job_data = d, job_opts = opts, attemptsMade = 0,
      job_state = waiting\<rparr>"

definition Queue_add :: "string \<Rightarrow> 'd \<Rightarrow> string option \<Rightarrow> 'd Queue \<Rightarrow> JobId \<times> 'd Queue" where
  "Queue_add n d jobId q =
     (if jobId = None \<or> jobId = Some []
      then (Auto (next_id q),
            q\<lparr>jobs := jobs q @ [new_Job (Auto (next_id q)) n d (defaultJobOptions q)],
              next_id := next_id q + 1\<rparr>)
      else if Custom (the jobId) \<in> job_id ` set (jobs q) then (Custom (the jobId), q)
      else (Custom (the jobId),
            q\<lparr>jobs := jobs q @ [new_Job (Custom (the jobId)) n d (defaultJobOptions q)]\<rparr>))"

definition MAX_RETRY_ATTEMPTS :: nat where
  "MAX_RETRY_ATTEMPTS = 5"

definition RETRY_DELAY :: nat where
  "RETRY_DELAY = 1000"

text \<open>The default job options of \<^verbatim>\<open>eventQueue\<close>, with the environment's defaults.\<close>

definition eventQueue_options :: JobsOptions where
  "eventQueue_options = \<lparr>opt_attempts = MAX_RETRY_ATTEMPTS, backoff_delay = RETRY_DELAY\<rparr>"

text \<open>
  \<^verbatim>\<open>addEventToQueue\<close>. The queue's \<^verbatim>\<open>add\<close> can throw, and the ingestion handler
  catches that: the connection can be down, and the library refuses some job ids (an
  id that reads as an integer, an id with a colon in it). \<open>fault\<close> says for which
  ids the call throws.
\<close>

definition addEventToQueue ::
  "(string \<Rightarrow> bool) \<Rightarrow> EventJobData \<Rightarrow> world \<Rightarrow> (exn + JobId) \<times> world" where
  "addEventToQueue fault data w =
     (let w1 = emit (QueueAdd ''events'' ''process-event'') w
      in if fault (eventId data) then (Inl QueueFault, w1)
         else (let (i, q) = Queue_add ''process-event'' data (Some (eventId data)) (eventQueue w1)
               in (Inr i, w1\<lparr>eventQueue := q\<rparr>)))"

definition addToDLQ :: "DeadLetterEntry \<Rightarrow> world \<Rightarrow> world" where
  "addToDLQ entry w =
     (let w1 = emit (QueueAdd ''events-dlq'' ''failed-event'') w;
          (i, q) = Queue_add ''failed-event'' entry None (deadLetterQueue w1)
      in w1\<lparr>deadLetterQueue := q\<rparr>)"

text \<open>
  \<^verbatim>\<open>getJobs(types)\<close>: the jobs in one of the states, type by type, each type with
  its newest job first (the call's default is descending order; \<open>jobs\<close> holds the
  oldest job first). \<^verbatim>\<open>job.remove()\<close> deletes the job with that id.
\<close>

definition getJobs :: "JobState list \<Rightarrow> 'd Queue \<Rightarrow> 'd Job list" where
  "getJobs types q =
     concat (map (\<lambda>s. rev (filter (\<lambda>j. job_state j = s) (jobs q))) types)"

definition Job_remove :: "JobId \<Rightarrow> 'd Queue \<Rightarrow> 'd Queue" where
  "Job_remove i q = q\<lparr>jobs := filter (\<lambda>j. job_id j \<noteq> i) (jobs q)\<rparr>"

text \<open>
  One round of the loop of \<^verbatim>\<open>replayDLQJobs\<close>. Either call in the \<^verbatim>\<open>try\<close> can
  throw: \<open>flt\<close> says for which entry and where. The round returns whether the
  entry was counted.
\<close>

datatype replay_fault = AddFails | RemoveFails

definition replay_one ::
  "(JobId \<Rightarrow> replay_fault option) \<Rightarrow> DeadLetterEntry Job \<Rightarrow> world \<Rightarrow> bool \<times> world" where
  "replay_one flt job w =
     (let w1 = emit (QueueAdd ''events'' ''retry'') w
      in if flt (job_id job) = Some AddFails then (False, w1)
         else
           (let (i, q) = Queue_add ''retry'' (originalJob (job_data job)) None (eventQueue w1);
                w2 = emit (JobRemove ''events-dlq'' (job_id job)) (w1\<lparr>eventQueue := q\<rparr>)
            in if flt (job_id job) = Some RemoveFails then (False, w2)
               else (True, w2\<lparr>deadLetterQueue := Job_remove (job_id job) (deadLetterQueue w2)\<rparr>)))"

fun replay_loop ::
  "(JobId \<Rightarrow> replay_fault option) \<Rightarrow> DeadLetterEntry Job list \<Rightarrow> nat \<Rightarrow> world \<Rightarrow> nat \<times> world" where
  "replay_loop flt [] replayedCount w = (replayedCount, w)"
| "replay_loop flt (job # js) replayedCount w =
     (case replay_one flt job w of
        (True, w1) \<Rightarrow> replay_loop flt js (replayedCount + 1) w1
      | (False, w1) \<Rightarrow> replay_loop flt js replayedCount w1)"

definition replayDLQJobs :: "(JobId \<Rightarrow> replay_fault option) \<Rightarrow> world \<Rightarrow> nat \<times> world" where
  "replayDLQJobs flt w =
     replay_loop flt (getJobs [waiting, delayed] (deadLetterQueue w)) 0
       (emit (QueueGetJobs ''events-dlq'') w)"

text \<open>
  The jobs a replay adds to the main queue for a list of dead letters: one fresh job
  per entry, named \<^verbatim>\<open>retry\<close>, with the entry's original data and the queue's next
  ids.
\<close>

fun replayed_jobs :: "nat \<Rightarrow> JobsOptions \<Rightarrow> DeadLetterEntry Job list \<Rightarrow> EventJobData Job list" where
  "replayed_jobs k opts [] = []"
| "replayed_jobs k opts (j # js) =
     new_Job (Auto k) ''retry'' (originalJob (job_data j)) opts # replayed_jobs (k + 1) opts js"

section \<open>The worker\<close>

definition processor :: "rat \<Rightarrow> EventJobData Job \<Rightarrow> world \<Rightarrow> (exn + unit) \<times> world" where
  "processor rnd job w =
     (case processEvent rnd (job_data job) (attemptsMade job) w of
        (Inl e, w1) \<Rightarrow> (Inl e, w1)
      | (Inr _, w1) \<Rightarrow> (Inr (), w1))"

text \<open>
  The handler of the worker's \<^verbatim>\<open>failed\<close> event. \<^verbatim>\<open>job.opts.attempts || 5\<close>: zero
  counts as absent.
\<close>

definition worker_on_failed :: "EventJobData Job option \<Rightarrow> exn \<Rightarrow> world \<Rightarrow> world" where
  "worker_on_failed jobo err w =
     (case jobo of
        None \<Rightarrow> w
      | Some job \<Rightarrow>
          (let maxAttempts =
                 (if opt_attempts (job_opts job) = 0 then 5 else opt_attempts (job_opts job))
           in if attemptsMade job \<ge> maxAttempts
              then (let w1 = handleFinalFailure (job_data job) (exn_message err) w
                    in addToDLQ \<lparr>originalJob = job_data job, dlq_error = exn_message err,
                                 failedAt = clock w1, dlq_attempts = attemptsMade job\<rparr> w1)
              else w))"

subsection \<open>The retry policy and the life of a job\<close>

text \<open>
  \<^verbatim>\<open>queue.ts\<close> only names the backoff (\<^verbatim>\<open>type: 'exponential'\<close>, with the
  \<^verbatim>\<open>delay\<close>); the delays themselves are computed by the queue library. The
  repository writes the computation down once, in the test of its retry strategy
  (\<^verbatim>\<open>should calculate correct exponential delays\<close>), and this is that expression:
  \<^verbatim>\<open>initialDelay * Math.pow(2, attempt)\<close> for the attempt with index \<open>attempt\<close>,
  counted from 0.
\<close>

definition nextDelay :: "JobsOptions \<Rightarrow> nat \<Rightarrow> nat" where
  "nextDelay opts attempt = backoff_delay opts * 2 ^ attempt"

text \<open>
  The worker loop itself belongs to the queue library. What the source relies on is
  its contract: \<^verbatim>\<open>attempts\<close> is the total number of attempts; an attempt, failed
  or not, is counted in \<^verbatim>\<open>attemptsMade\<close> when it ends, before the \<^verbatim>\<open>failed\<close>
  event is raised (the handler compares \<^verbatim>\<open>job.attemptsMade >= maxAttempts\<close>);
  while attempts remain the job is delayed by the backoff and tried again, otherwise
  it fails for good. \<open>run_job\<close> is one job taken through its attempts with nothing
  else running in between.
  \<open>retry_delay opts i\<close> is the delay scheduled after the failure of the attempt with
  index \<open>i\<close>, if a retry follows.
\<close>

definition retry_delay :: "JobsOptions \<Rightarrow> nat \<Rightarrow> nat option" where
  "retry_delay opts i = (if i + 1 < opt_attempts opts then Some (nextDelay opts i) else None)"

function run_job ::
  "(nat \<Rightarrow> rat) \<Rightarrow> EventJobData Job \<Rightarrow> world \<Rightarrow> EventJobData Job \<times> world" where
  "run_job rnd job w =
     (case processor (rnd (attemptsMade job)) (job\<lparr>job_state := active\<rparr>) w of
        (Inr _, w1) \<Rightarrow> (job\<lparr>attemptsMade := attemptsMade job + 1, job_state := completed\<rparr>, w1)
      | (Inl err, w1) \<Rightarrow>
          (case retry_delay (job_opts job) (attemptsMade job) of
             Some d \<Rightarrow>
               (let job1 = job\<lparr>attemptsMade := attemptsMade job + 1, job_state := delayed\<rparr>;
                    w2 = worker_on_failed (Some job1) err (emit (ScheduleRetry (job_id job) d) w1)
                in run_job rnd job1 (w2\<lparr>clock := clock w2 + d\<rparr>))
           | None \<Rightarrow>
               (let job1 = job\<lparr>attemptsMade := attemptsMade job + 1, job_state := failed\<rparr>
                in (job1, worker_on_failed (Some job1) err w1))))"
  by pat_completeness auto
termination
  by (relation "measure (\<lambda>(rnd, job, w). opt_attempts (job_opts job) - attemptsMade job)")
    (auto simp: retry_delay_def split: if_splits)

declare run_job.simps [simp del]

section \<open>Signatures\<close>

text \<open>
  \<^verbatim>\<open>hmac.ts\<close>. A \<^verbatim>\<open>Buffer\<close> is a list of bytes; a string is taken as the bytes
  of its encoding. The keyed hash itself is a parameter \<open>H\<close>, a function from the
  key and the message to 256 bits; \<^verbatim>\<open>digest('hex')\<close> prints them as 64 lower-case
  hexadecimal digits. \<^verbatim>\<open>JSON.stringify\<close> is a parameter too; \<open>None\<close> stands for an
  object it cannot print (it throws or returns \<^verbatim>\<open>undefined\<close>).
\<close>

type_synonym Buffer = "8 word list"

definition Buffer_from_string :: "string \<Rightarrow> Buffer" where
  "Buffer_from_string s = map of_char s"

definition hex_digit :: "nat \<Rightarrow> char" where
  "hex_digit n = char_of (if n < 10 then 48 + n else 87 + n)"

definition hex_byte :: "8 word \<Rightarrow> string" where
  "hex_byte b = [hex_digit (unat b div 16), hex_digit (unat b mod 16)]"

definition digest_bytes :: "256 word \<Rightarrow> Buffer" where
  "digest_bytes h = map (\<lambda>i. ucast (drop_bit (8 * (31 - i)) h)) [0..<32]"

definition digest_hex :: "256 word \<Rightarrow> string" where
  "digest_hex h = concat (map hex_byte (digest_bytes h))"

definition hex_val :: "char \<Rightarrow> nat option" where
  "hex_val c =
     (let n = (of_char c :: nat)
      in if 48 \<le> n \<and> n \<le> 57 then Some (n - 48)
         else if 97 \<le> n \<and> n \<le> 102 then Some (n - 87)
         else if 65 \<le> n \<and> n \<le> 70 then Some (n - 55)
         else None)"

text \<open>
  \<^verbatim>\<open>Buffer.from(s, 'hex')\<close> decodes pairs of digits and stops at the first pair that
  is not hexadecimal, or when fewer than two characters are left.
\<close>

fun Buffer_from_hex :: "string \<Rightarrow> Buffer" where
  "Buffer_from_hex (a # b # rest) =
     (case (hex_val a, hex_val b) of
        (Some x, Some y) \<Rightarrow> of_nat (16 * x + y) # Buffer_from_hex rest
      | _ \<Rightarrow> [])"
| "Buffer_from_hex _ = []"

datatype hmac_payload = Buf Buffer | Str string | Obj json

definition validateHMAC ::
  "(string \<Rightarrow> Buffer \<Rightarrow> 256 word) \<Rightarrow> (json \<Rightarrow> string option) \<Rightarrow>
   hmac_payload \<Rightarrow> string \<Rightarrow> string \<Rightarrow> bool" where
  "validateHMAC H stringify p signature secret =
     (if signature = [] \<or> secret = [] then False
      else
        (case (case p of
                 Buf b \<Rightarrow> Some b
               | Str s \<Rightarrow> Some (Buffer_from_string s)
               | Obj v \<Rightarrow> map_option Buffer_from_string (stringify v)) of
           None \<Rightarrow> False
         | Some payloadBuffer \<Rightarrow>
             (let expected = digest_hex (H secret payloadBuffer);
                  signatureBuffer = Buffer_from_hex signature;
                  expectedBuffer = Buffer_from_hex expected
              in if length signatureBuffer \<noteq> length expectedBuffer then False
                 else signatureBuffer = expectedBuffer)))"

definition generateHMAC ::
  "(string \<Rightarrow> Buffer \<Rightarrow> 256 word) \<Rightarrow> (json \<Rightarrow> string option) \<Rightarrow>
   json \<Rightarrow> string \<Rightarrow> exn + string" where
  "generateHMAC H stringify p secret =
     (case stringify p of
        None \<Rightarrow> Inl TypeError
      | Some s \<Rightarrow> Inr (digest_hex (H secret (Buffer_from_string s))))"

section \<open>The controller\<close>

text \<open>
  What \<^verbatim>\<open>ingestEvent\<close> reads besides the request: the environment's secret, the
  keyed hash, \<^verbatim>\<open>crypto.randomUUID()\<close>, for which job ids the queue's \<^verbatim>\<open>add\<close>
  throws and how long it takes.
\<close>

record Runtime =
  HMAC_SECRET :: "string option"
  hmac_sha256 :: "string \<Rightarrow> Buffer \<Rightarrow> 256 word"
  JSON_stringify :: "json \<Rightarrow> string option"
  randomUUID :: string
  enqueue_fault :: "string \<Rightarrow> bool"
  enqueue_ms :: nat

text \<open>\<^verbatim>\<open>EventPayload\<close> as it arrives: any field may be missing.\<close>

record EventPayload =
  body_eventId :: "string option"
  body_type :: "string option"
  body_payload :: "payload option"

record Request =
  req_correlationId :: "string option"
  x_correlation_id :: "string option"
  x_hmac_signature :: "string option"
  rawBody :: "Buffer option"
  body :: EventPayload

datatype ResponseBody =
    ErrorBody string string
  | AcceptedBody bool string string string nat

record Response =
  statusCode :: nat
  json_body :: ResponseBody

text \<open>A string that is missing or empty is falsy.\<close>

fun truthy :: "string option \<Rightarrow> string option" where
  "truthy (Some (c # cs)) = Some (c # cs)"
| "truthy _ = None"

definition ingestEvent :: "Runtime \<Rightarrow> Request \<Rightarrow> world \<Rightarrow> Response \<times> world" where
  "ingestEvent rt req w =
     (let startTime = clock w;
          cid = (case truthy (req_correlationId req) of
                   Some c \<Rightarrow> c
                 | None \<Rightarrow> (case truthy (x_correlation_id req) of
                              Some c \<Rightarrow> c
                            | None \<Rightarrow> randomUUID rt));
          signature = (case x_hmac_signature req of Some s \<Rightarrow> s | None \<Rightarrow> [])
      in case truthy (HMAC_SECRET rt) of
           None \<Rightarrow>
             (\<lparr>statusCode = 500, json_body = ErrorBody ''Server misconfiguration'' cid\<rparr>, w)
         | Some secret \<Rightarrow>
             (case rawBody req of
                None \<Rightarrow>
                  (\<lparr>statusCode = 400, json_body = ErrorBody ''Invalid request body'' cid\<rparr>, w)
              | Some raw \<Rightarrow>
                  if \<not> validateHMAC (hmac_sha256 rt) (JSON_stringify rt) (Buf raw) signature secret
                  then (\<lparr>statusCode = 401, json_body = ErrorBody ''Invalid signature'' cid\<rparr>, w)
                  else
                    (case (truthy (body_eventId (body req)), truthy (body_type (body req)),
                           body_payload (body req)) of
                       (Some eid, Some ty, Some pl) \<Rightarrow>
                         (case addEventToQueue (enqueue_fault rt)
                                 \<lparr>eventId = eid, type = ty, payload = pl,
                                  correlationId = Some cid\<rparr> w of
                            (Inl e, w1) \<Rightarrow>
                              (\<lparr>statusCode = 500,
                                json_body = ErrorBody ''Internal server error'' cid\<rparr>, w1)
                          | (Inr _, w1) \<Rightarrow>
                              (let w2 = w1\<lparr>clock := clock w1 + enqueue_ms rt\<rparr>;
                                   latency = clock w2 - startTime
                               in (\<lparr>statusCode = 202,
                                     json_body = AcceptedBody True eid cid
                                       ''Event queued for processing'' latency\<rparr>, w2)))
                     | _ \<Rightarrow>
                         (\<lparr>statusCode = 400,
                           json_body = ErrorBody
                             ''Missing required fields: eventId, type, payload'' cid\<rparr>, w))))"

text \<open>
  The response of \<^verbatim>\<open>ingestEvent\<close> written as a function of the request and of what
  the handler reads from its environment, with no world in it.
\<close>

definition ingest_response :: "Runtime \<Rightarrow> Request \<Rightarrow> Response" where
  "ingest_response rt req =
     (let cid = (case truthy (req_correlationId req) of
                   Some c \<Rightarrow> c
                 | None \<Rightarrow> (case truthy (x_correlation_id req) of
                              Some c \<Rightarrow> c
                            | None \<Rightarrow> randomUUID rt));
          signature = (case x_hmac_signature req of Some s \<Rightarrow> s | None \<Rightarrow> [])
      in case truthy (HMAC_SECRET rt) of
           None \<Rightarrow> \<lparr>statusCode = 500, json_body = ErrorBody ''Server misconfiguration'' cid\<rparr>
         | Some secret \<Rightarrow>
             (case rawBody req of
                None \<Rightarrow> \<lparr>statusCode = 400, json_body = ErrorBody ''Invalid request body'' cid\<rparr>
              | Some raw \<Rightarrow>
                  if \<not> validateHMAC (hmac_sha256 rt) (JSON_stringify rt) (Buf raw) signature secret
                  then \<lparr>statusCode = 401, json_body = ErrorBody ''Invalid signature'' cid\<rparr>
                  else
                    (case (truthy (body_eventId (body req)), truthy (body_type (body req)),
                           body_payload (body req)) of
                       (Some eid, Some ty, Some pl) \<Rightarrow>
                         if enqueue_fault rt eid
                         then \<lparr>statusCode = 500,
                                json_body = ErrorBody ''Internal server error'' cid\<rparr>
                         else \<lparr>statusCode = 202,
                                json_body = AcceptedBody True eid cid
                                  ''Event queued for processing'' (enqueue_ms rt)\<rparr>
                     | _ \<Rightarrow>
                         \<lparr>statusCode = 400,
                           json_body = ErrorBody
                             ''Missing required fields: eventId, type, payload'' cid\<rparr>)))"

section \<open>The system\<close>

text \<open>
  The worker runs up to \<^verbatim>\<open>QUEUE_CONCURRENCY\<close> jobs at once, and the handler of the
  \<^verbatim>\<open>failed\<close> event is an asynchronous function of its own. An asynchronous function
  runs undisturbed up to its next \<^verbatim>\<open>await\<close>; between two of its awaits the others
  proceed. So a running function is a task with the place it has reached. For
  \<^verbatim>\<open>processEvent\<close> the places are its six awaited calls and its return.
\<close>

datatype pc =
    At_eventExists
  | At_getEventById
  | At_createEvent
  | At_incrementEventAttempts
  | At_simulateRoutingService
  | At_markEventRouted
  | Returned "exn + unit"

text \<open>One awaited call of \<^verbatim>\<open>processEvent\<close>, and where the function goes from there.\<close>

fun processEvent_step :: "rat \<Rightarrow> EventJobData \<Rightarrow> pc \<Rightarrow> world \<Rightarrow> pc \<times> world" where
  "processEvent_step rnd data At_eventExists w =
     (let (exists, w1) = eventExists (eventId data) w
      in (if exists then At_getEventById else At_createEvent, w1))"
| "processEvent_step rnd data At_getEventById w =
     (let (existingEvent, w1) = getEventById (eventId data) w
      in (if map_option status existingEvent = Some ROUTED then Returned (Inr ())
          else At_incrementEventAttempts, w1))"
| "processEvent_step rnd data At_createEvent w =
     (case createEvent data w of
        (Inl e, w1) \<Rightarrow> (Returned (Inl e), w1)
      | (Inr _, w1) \<Rightarrow> (At_incrementEventAttempts, w1))"
| "processEvent_step rnd data At_incrementEventAttempts w =
     (let (_, w1) = incrementEventAttempts (eventId data) w
      in (At_simulateRoutingService, w1))"
| "processEvent_step rnd data At_simulateRoutingService w =
     (case simulateRoutingService rnd (eventId data) (payload data) w of
        (Inl e, w1) \<Rightarrow> (Returned (Inl e), w1)
      | (Inr _, w1) \<Rightarrow> (At_markEventRouted, w1))"
| "processEvent_step rnd data At_markEventRouted w =
     (let (_, w1) = markEventRouted (eventId data) w
      in (Returned (Inr ()), w1))"
| "processEvent_step rnd data (Returned r) w = (Returned r, w)"

definition processEvent_steps ::
  "nat \<Rightarrow> rat \<Rightarrow> EventJobData \<Rightarrow> pc \<times> world \<Rightarrow> pc \<times> world" where
  "processEvent_steps n rnd data = (\<lambda>(pc, w). processEvent_step rnd data pc w) ^^ n"

text \<open>
  The handler of the \<^verbatim>\<open>failed\<close> event has two awaits, both behind its test of
  \<^verbatim>\<open>job.attemptsMade >= maxAttempts\<close>.
\<close>

datatype hpc = At_handleFinalFailure | At_addToDLQ

datatype task =
    Processor "EventJobData Job" pc
  | OnFailed "EventJobData Job" exn hpc

text \<open>
  One step of a task, and the tasks that take its place. When the processor has
  returned, the library counts the attempt; after an error it raises the \<^verbatim>\<open>failed\<close>
  event, whose handler becomes a task if its test holds, and delays the job for its
  next attempt if one is left, as in \<open>run_job\<close>.
\<close>

fun task_step :: "rat \<Rightarrow> task \<Rightarrow> world \<Rightarrow> task list \<times> world" where
  "task_step rnd (Processor job (Returned (Inr u))) w = ([], w)"
| "task_step rnd (Processor job (Returned (Inl err))) w =
     (let job1 = job\<lparr>attemptsMade := attemptsMade job + 1\<rparr>;
          maxAttempts =
            (if opt_attempts (job_opts job1) = 0 then 5 else opt_attempts (job_opts job1))
      in case retry_delay (job_opts job) (attemptsMade job) of
           Some d \<Rightarrow>
             ((if attemptsMade job1 \<ge> maxAttempts
               then [OnFailed (job1\<lparr>job_state := delayed\<rparr>) err At_handleFinalFailure] else [])
              @ [Processor (job1\<lparr>job_state := delayed\<rparr>) At_eventExists],
              (emit (ScheduleRetry (job_id job) d) w)\<lparr>clock := clock w + d\<rparr>)
         | None \<Rightarrow>
             (if attemptsMade job1 \<ge> maxAttempts
              then [OnFailed (job1\<lparr>job_state := failed\<rparr>) err At_handleFinalFailure] else [],
              w))"
| "task_step rnd (Processor job pc) w =
     (let (pc1, w1) = processEvent_step rnd (job_data job) pc w
      in ([Processor job pc1], w1))"
| "task_step rnd (OnFailed job err At_handleFinalFailure) w =
     ([OnFailed job err At_addToDLQ],
      handleFinalFailure (job_data job) (exn_message err) w)"
| "task_step rnd (OnFailed job err At_addToDLQ) w =
     ([], addToDLQ \<lparr>originalJob = job_data job, dlq_error = exn_message err,
                    failedAt = clock w, dlq_attempts = attemptsMade job\<rparr> w)"

text \<open>
  What happens in the system, one action at a time: a request to the ingestion
  endpoint, a replay of the dead letters, a look-up of an event's status, the worker
  taking a job, and one of the pending tasks running on to its next await (with the
  value \<^verbatim>\<open>Math.random()\<close> has for it there). Which job the queue hands to the
  worker, and when, is left open: every choice is a schedule. The ingestion handler
  and the replay call only the queues, which no task reads, so each of them is one
  action.
\<close>

datatype action =
    Ingest Runtime Request
  | Replay "JobId \<Rightarrow> replay_fault option"
  | GetEventStatus string
  | Take "EventJobData Job"
  | Resume nat rat

fun step :: "action \<Rightarrow> world \<times> task list \<Rightarrow> world \<times> task list" where
  "step (Ingest rt req) (w, ts) = (snd (ingestEvent rt req w), ts)"
| "step (Replay flt) (w, ts) = (snd (replayDLQJobs flt w), ts)"
| "step (GetEventStatus eid) (w, ts) = (snd (getEventById eid w), ts)"
| "step (Take job) (w, ts) = (w, ts @ [Processor job At_eventExists])"
| "step (Resume i rnd) (w, ts) =
     (if i < length ts
      then (let (new, w1) = task_step rnd (ts ! i) w
            in (w1, take i ts @ new @ drop (Suc i) ts))
      else (w, ts))"

definition run_system :: "action list \<Rightarrow> world \<times> task list \<Rightarrow> world \<times> task list" where
  "run_system acts s = fold step acts s"

definition status_of :: "string \<Rightarrow> world \<Rightarrow> EventStatus option" where
  "status_of eid w = map_option status (findOne eid (ledger w))"


text \<open>The delays of the retries scheduled in a list of calls.\<close>

fun scheduled_delays :: "call list \<Rightarrow> nat list" where
  "scheduled_delays [] = []"
| "scheduled_delays (ScheduleRetry i d # cs) = d # scheduled_delays cs"
| "scheduled_delays (c # cs) = scheduled_delays cs"

text \<open>The calls a step of the world has added.\<close>

definition new_calls :: "world \<Rightarrow> world \<Rightarrow> call list" where
  "new_calls w w' = drop (length (calls w)) (calls w')"

section \<open>Example values\<close>

definition ex_data :: EventJobData where
  "ex_data = \<lparr>eventId = ''E1'', type = ''ORDER_CREATED'',
     payload = [(''orderId'', JStr ''12345'')], correlationId = None\<rparr>"

definition ex_world :: world where
  "ex_world = \<lparr>ledger = [],
     eventQueue = \<lparr>jobs = [], next_id = 1, defaultJobOptions = eventQueue_options\<rparr>,
     deadLetterQueue = \<lparr>jobs = [], next_id = 1,
       defaultJobOptions = \<lparr>opt_attempts = 0, backoff_delay = 0\<rparr>\<rparr>,
     clock = 0, calls = []\<rparr>"

text \<open>
  A routing service that fails at every attempt, one that succeeds at every attempt,
  and queues whose calls never fail.
\<close>

definition always_fails :: "nat \<Rightarrow> rat" where
  "always_fails i = 1 / 20"

definition always_routes :: "nat \<Rightarrow> rat" where
  "always_routes i = 1 / 2"

definition no_fault :: "JobId \<Rightarrow> replay_fault option" where
  "no_fault i = None"

definition ex_job :: "EventJobData Job" where
  "ex_job = new_Job (Custom ''E1'') ''process-event'' ex_data eventQueue_options"

text \<open>The job a replay adds to an empty main queue for a dead letter of \<open>ex_data\<close>.\<close>

definition ex_retry_job :: "EventJobData Job" where
  "ex_retry_job = new_Job (Auto 1) ''retry'' ex_data eventQueue_options"

definition ex_routed :: IEvent where
  "ex_routed = (new_Event ex_data 0)\<lparr>status := ROUTED, attempts := 1,
     processedAt := Some 2000, updatedAt := 2000\<rparr>"

definition ex_world_routed :: world where
  "ex_world_routed = ex_world\<lparr>ledger := [ex_routed]\<rparr>"

definition ex_world_pending :: world where
  "ex_world_pending = ex_world\<lparr>ledger := [new_Event ex_data 0], clock := 10\<rparr>"

definition ex_world_failed :: world where
  "ex_world_failed = ex_world\<lparr>ledger := [(new_Event ex_data 0)\<lparr>status := FAILED, attempts := 5,
       error := Some ''Routing service temporarily unavailable'', updatedAt := 25000\<rparr>],
     clock := 30000\<rparr>"

text \<open>Job data that the schema rejects: the type is empty, or the event id is.\<close>

definition ex_bad_data :: EventJobData where
  "ex_bad_data = \<lparr>eventId = ''E2'', type = [], payload = [], correlationId = None\<rparr>"

definition ex_no_id_data :: EventJobData where
  "ex_no_id_data = \<lparr>eventId = [], type = ''ORDER_CREATED'', payload = [], correlationId = None\<rparr>"

definition ex_bad_job :: "EventJobData Job" where
  "ex_bad_job = new_Job (Custom ''E2'') ''process-event'' ex_bad_data eventQueue_options"

text \<open>A job of a queue configured with \<^verbatim>\<open>MAX_RETRY_ATTEMPTS=0\<close>.\<close>

definition ex_zero_job :: "EventJobData Job" where
  "ex_zero_job = new_Job (Custom ''E1'') ''process-event'' ex_data
     \<lparr>opt_attempts = 0, backoff_delay = RETRY_DELAY\<rparr>"

definition ex_entry :: DeadLetterEntry where
  "ex_entry = \<lparr>originalJob = ex_data, dlq_error = ''Routing service temporarily unavailable'',
     failedAt = 25000, dlq_attempts = 5\<rparr>"

definition ex_world_dlq :: world where
  "ex_world_dlq = ex_world_failed\<lparr>deadLetterQueue :=
     \<lparr>jobs = [new_Job (Auto 1) ''failed-event'' ex_entry \<lparr>opt_attempts = 0, backoff_delay = 0\<rparr>],
      next_id = 2, defaultJobOptions = \<lparr>opt_attempts = 0, backoff_delay = 0\<rparr>\<rparr>\<rparr>"

text \<open>
  A schedule for two jobs that carry the same event, from a world in which the event
  failed earlier (\<open>ex_world_failed\<close>): its dead letter has been replayed
  (\<open>ex_retry_job\<close>) and the producer has sent the event again (\<open>ex_job\<close>). The
  second of these, task 0, fails its first four attempts, five steps each, and starts
  its fifth; the replayed job, task 1, runs up to the answer of the routing service,
  which accepts; then the routing call of task 0 fails, and task 1 marks the event
  routed.
\<close>

definition ex_failed_attempt :: "action list" where
  "ex_failed_attempt = [Resume 0 (1 / 20), Resume 0 (1 / 20), Resume 0 (1 / 20),
     Resume 0 (1 / 20), Resume 0 (1 / 20)]"

definition ex_race :: "action list" where
  "ex_race = [Take ex_job, Take ex_retry_job]
     @ ex_failed_attempt @ ex_failed_attempt @ ex_failed_attempt @ ex_failed_attempt
     @ [Resume 0 (1 / 20), Resume 0 (1 / 20), Resume 0 (1 / 20),
        Resume 1 (1 / 2), Resume 1 (1 / 2), Resume 1 (1 / 2), Resume 1 (1 / 2),
        Resume 0 (1 / 20), Resume 1 (1 / 2)]"

text \<open>A stand-in for the keyed hash and a printer of the empty object, for examples.\<close>

definition ex_H :: "string \<Rightarrow> Buffer \<Rightarrow> 256 word" where
  "ex_H k m = of_nat (length k + 256 * length m)"

definition ex_stringify :: "json \<Rightarrow> string option" where
  "ex_stringify v = (case v of JObj [] \<Rightarrow> Some ''{}'' | _ \<Rightarrow> None)"

section \<open>Properties of the store and the repository\<close>

lemma findOne_None_iff: "findOne eid docs = None \<longleftrightarrow> eid \<notin> eventId ` set docs"
  by (auto simp: findOne_def find_None_iff)

lemma findOne_Some_eventId: "findOne eid docs = Some d \<Longrightarrow> eventId d = eid"
  by (auto simp: findOne_def find_Some_iff)

lemma findOne_append_new:
  "findOne eid docs = None \<Longrightarrow> findOne eid (docs @ [d]) = (if eventId d = eid then Some d else None)"
  by (induction docs) (auto simp: findOne_def)

lemma filter_absent: "findOne eid docs = None \<Longrightarrow> filter (\<lambda>d. eventId d = eid) docs = []"
  by (induction docs) (auto simp: findOne_def split: if_splits)

lemma createEvent_existing:
  "findOne (eventId d) (ledger w) \<noteq> None \<Longrightarrow> eventId d \<noteq> [] \<Longrightarrow> type d \<noteq> [] \<Longrightarrow>
   createEvent d w = (Inr None, emit (DbSave (eventId d)) w)"
  by (auto simp: createEvent_def save_def validate_def new_Event_def Let_def)

lemma createEvent_fresh:
  "findOne (eventId d) (ledger w) = None \<Longrightarrow> eventId d \<noteq> [] \<Longrightarrow> type d \<noteq> [] \<Longrightarrow>
   createEvent d w = (Inr (Some (new_Event d (clock w))),
      emit (DbSave (eventId d)) w\<lparr>ledger := ledger w @ [new_Event d (clock w)]\<rparr>)"
  by (auto simp: createEvent_def save_def validate_def new_Event_def Let_def)

lemma ledger_emit [simp]: "ledger (emit c w) = ledger w"
  by (simp add: emit_def)

lemma createEvents_existing:
  "findOne e (ledger w) \<noteq> None \<Longrightarrow> \<forall>(t, d) \<in> set ds. eventId d = e \<and> e \<noteq> [] \<and> type d \<noteq> [] \<Longrightarrow>
   fst (createEvents ds w) = replicate (length ds) (Inr None) \<and> ledger (snd (createEvents ds w)) = ledger w"
proof (induction ds arbitrary: w)
  case Nil
  then show ?case by simp
next
  case (Cons a ds)
  obtain t d where a: "a = (t, d)" by (cases a)
  from Cons.prems a have v: "eventId d = e" "e \<noteq> []" "type d \<noteq> []" by auto
  let ?w1 = "emit (DbSave (eventId d)) (w\<lparr>clock := t\<rparr>)"
  have ce: "createEvent d (w\<lparr>clock := t\<rparr>) = (Inr None, ?w1)"
    using createEvent_existing[of d "w\<lparr>clock := t\<rparr>"] Cons.prems(1) v by simp
  have ex: "findOne e (ledger ?w1) \<noteq> None" using Cons.prems(1) by simp
  have rest: "\<forall>(t, d) \<in> set ds. eventId d = e \<and> e \<noteq> [] \<and> type d \<noteq> []"
    using Cons.prems(2) by simp
  from Cons.IH[OF ex rest] show ?case
    by (simp add: a ce split_beta)
qed

lemma rows_Nil_iff: "rows e w = [] \<longleftrightarrow> findOne e (ledger w) = None"
  by (auto simp: rows_def findOne_None_iff filter_empty_conv)

text \<open>
  C1, as amended. Any non-empty sequence of \<^verbatim>\<open>createEvent\<close> calls for one event id,
  with data that pass the schema's validators (the id and the type are not empty), on
  a ledger that holds at most one row for the id, ends with exactly one row for it.
  Every call after the first returns null, and the ledger after the whole sequence is
  the ledger after the first call; on a ledger without the row the first call returns
  the created document.
\<close>

theorem createEvent_idempotent:
  assumes ne: "cs \<noteq> []"
    and valid: "\<forall>(t, d) \<in> set cs. eventId d = e \<and> e \<noteq> [] \<and> type d \<noteq> []"
    and uniq: "length (rows e w) \<le> 1"
  shows "length (rows e (snd (createEvents cs w))) = 1
    \<and> tl (fst (createEvents cs w)) = replicate (length cs - 1) (Inr None)
    \<and> ledger (snd (createEvents cs w))
        = ledger (snd (createEvent (snd (hd cs)) (w\<lparr>clock := fst (hd cs)\<rparr>)))
    \<and> (rows e w = [] \<longrightarrow> (\<exists>doc. hd (fst (createEvents cs w)) = Inr (Some doc)))"
proof -
  from ne obtain t d rest where cs: "cs = (t, d) # rest"
    by (cases cs) auto
  from valid cs have v: "eventId d = e" "e \<noteq> []" "type d \<noteq> []"
    and rest: "\<forall>(t, d) \<in> set rest. eventId d = e \<and> e \<noteq> [] \<and> type d \<noteq> []"
    by auto
  let ?w0 = "w\<lparr>clock := t\<rparr>"
  obtain r w1 where first: "createEvent d ?w0 = (r, w1)"
    by (cases "createEvent d ?w0")
  have after: "findOne e (ledger w1) \<noteq> None \<and> length (rows e w1) = 1
      \<and> (rows e w = [] \<longrightarrow> (\<exists>doc. r = Inr (Some doc)))"
  proof (cases "findOne e (ledger w) = None")
    case True
    then have "createEvent d ?w0 = (Inr (Some (new_Event d t)),
        emit (DbSave (eventId d)) ?w0\<lparr>ledger := ledger ?w0 @ [new_Event d (clock ?w0)]\<rparr>)"
      using createEvent_fresh[of d ?w0] v by simp
    with first have r: "r = Inr (Some (new_Event d t))"
      and w1: "ledger w1 = ledger w @ [new_Event d t]"
      by auto
    have id: "eventId (new_Event d t) = e"
      using v by (simp add: new_Event_def)
    show ?thesis
      using True r w1 id
      by (simp add: findOne_append_new rows_def filter_absent)
  next
    case False
    then have "createEvent d ?w0 = (Inr None, emit (DbSave (eventId d)) ?w0)"
      using createEvent_existing[of d ?w0] v by simp
    with first have w1: "ledger w1 = ledger w" by auto
    from False have nonempty: "rows e w \<noteq> []" by (simp add: rows_Nil_iff)
    with uniq have "length (rows e w) = 1"
      by (cases "rows e w") auto
    with False w1 nonempty show ?thesis
      by (simp add: rows_def)
  qed
  from after rest have tail: "fst (createEvents rest w1) = replicate (length rest) (Inr None)"
    "ledger (snd (createEvents rest w1)) = ledger w1"
    using createEvents_existing[of e w1 rest] by auto
  have run: "createEvents cs w = (r # fst (createEvents rest w1), snd (createEvents rest w1))"
    by (simp add: cs first split_beta)
  show ?thesis
    unfolding run using after tail by (simp add: cs first rows_def)
qed

theorem createEvent_idempotent_witness:
  "length (rows ''E1'' (snd (createEvents [(1, ex_data), (2, ex_data), (3, ex_data)] ex_world))) = 1
   \<and> tl (fst (createEvents [(1, ex_data), (2, ex_data), (3, ex_data)] ex_world)) = [Inr None, Inr None]
   \<and> hd (fst (createEvents [(1, ex_data), (2, ex_data), (3, ex_data)] ex_world)) = Inr (Some (new_Event ex_data 1))"
proof -
  have v: "\<forall>(t, d) \<in> set [(1::nat, ex_data), (2, ex_data), (3, ex_data)].
      eventId d = ''E1'' \<and> ''E1'' \<noteq> [] \<and> type d \<noteq> []"
    by (simp add: ex_data_def)
  have u: "length (rows ''E1'' ex_world) \<le> 1"
    by (simp add: rows_def ex_world_def)
  have h: "hd (fst (createEvents [(1, ex_data), (2, ex_data), (3, ex_data)] ex_world)) = Inr (Some (new_Event ex_data 1))"
    by (simp add: createEvent_def save_def validate_def new_Event_def findOne_def ex_data_def ex_world_def emit_def split_beta)
  from createEvent_idempotent[OF _ v u] h show ?thesis
    by (simp add: numeral_eq_Suc)
qed

text \<open>
  C1 as stated fails for data that the schema rejects, an empty type or an empty event
  id: every call of the sequence throws the validation error, none returns null, and
  no row is created.
\<close>

theorem createEvent_rejected_counterexample:
  "fst (createEvents [(1, ex_bad_data), (2, ex_bad_data), (3, ex_bad_data)] ex_world)
     = [Inl ValidationError, Inl ValidationError, Inl ValidationError]
   \<and> rows ''E2''
        (snd (createEvents [(1, ex_bad_data), (2, ex_bad_data), (3, ex_bad_data)] ex_world)) = []
   \<and> eventId ex_bad_data = ''E2''
   \<and> fst (createEvents [(1, ex_no_id_data), (2, ex_no_id_data)] ex_world)
     = [Inl ValidationError, Inl ValidationError]
   \<and> rows [] (snd (createEvents [(1, ex_no_id_data), (2, ex_no_id_data)] ex_world)) = []
   \<and> eventId ex_no_id_data = []"
  by (simp add: createEvent_def save_def validate_def new_Event_def findOne_def rows_def
      ex_bad_data_def ex_no_id_data_def ex_world_def emit_def split_beta)

section \<open>Properties of a processing attempt\<close>

lemma update_first_absent: "findOne eid docs = None \<Longrightarrow> update_first eid f docs = docs"
  by (induction docs) (auto simp: findOne_def split: if_splits)

lemma findOneAndUpdate_eq:
  "findOneAndUpdate eid f docs = (map_option f (findOne eid docs), update_first eid f docs)"
  by (cases "findOne eid docs") (simp_all add: findOneAndUpdate_def update_first_absent)

lemma findOne_update_first:
  "(\<And>d. eventId (f d) = eventId d) \<Longrightarrow>
   findOne eid' (update_first eid f docs) =
     (if eid' = eid then map_option f (findOne eid docs) else findOne eid' docs)"
  by (induction docs) (auto simp: findOne_def)

lemma map_eventId_update_first:
  "(\<And>d. eventId (f d) = eventId d) \<Longrightarrow> map eventId (update_first eid f docs) = map eventId docs"
  by (induction docs) auto

lemma incrementEventAttempts_eq:
  "incrementEventAttempts eid w =
     (map_option (\<lambda>d. d\<lparr>attempts := attempts d + 1, updatedAt := clock w\<rparr>) (findOne eid (ledger w)),
      w\<lparr>ledger := update_first eid (\<lambda>d. d\<lparr>attempts := attempts d + 1, updatedAt := clock w\<rparr>) (ledger w),
        calls := calls w @ [DbFindOneAndUpdate eid Inc_attempts]\<rparr>)"
  by (simp add: incrementEventAttempts_def findOneAndUpdate_eq emit_def)

lemma markEventFailed_eq:
  "markEventFailed eid err w =
     (map_option (\<lambda>d. d\<lparr>status := FAILED, error := Some err, updatedAt := clock w\<rparr>) (findOne eid (ledger w)),
      w\<lparr>ledger := update_first eid (\<lambda>d. d\<lparr>status := FAILED, error := Some err, updatedAt := clock w\<rparr>) (ledger w),
        calls := calls w @ [DbFindOneAndUpdate eid (Set_status FAILED)]\<rparr>)"
  by (simp add: markEventFailed_def findOneAndUpdate_eq emit_def)

lemma markEventRouted_eq:
  "markEventRouted eid w =
     (map_option (\<lambda>d. d\<lparr>status := ROUTED, processedAt := Some (clock w), updatedAt := clock w\<rparr>) (findOne eid (ledger w)),
      w\<lparr>ledger := update_first eid (\<lambda>d. d\<lparr>status := ROUTED, processedAt := Some (clock w), updatedAt := clock w\<rparr>) (ledger w),
        calls := calls w @ [DbFindOneAndUpdate eid (Set_status ROUTED)]\<rparr>)"
  by (simp add: markEventRouted_def findOneAndUpdate_eq emit_def)

lemma processEvent_skip:
  assumes "findOne (eventId data) (ledger w) = Some d" and "status d = ROUTED"
  shows "processEvent rnd data made w =
    (Inr \<lparr>success = True, message = ''Event already processed (idempotent skip)''\<rparr>,
     w\<lparr>calls := calls w @ [DbFindOne (eventId data), DbFindOne (eventId data)]\<rparr>)"
  using assms by (simp add: processEvent_def eventExists_def getEventById_def emit_def)

lemma processEvent_existing:
  assumes "findOne (eventId data) (ledger w) = Some d" and "status d \<noteq> ROUTED"
  shows "processEvent rnd data made w =
    (if rnd < 1 / 10
     then (Inl RoutingUnavailable,
           w\<lparr>ledger := update_first (eventId data)
                 (\<lambda>d. d\<lparr>attempts := attempts d + 1, updatedAt := clock w\<rparr>) (ledger w),
             clock := clock w + ROUTING_DELAY_MS,
             calls := calls w @ [DbFindOne (eventId data), DbFindOne (eventId data),
               DbFindOneAndUpdate (eventId data) Inc_attempts, Route (eventId data)]\<rparr>)
     else (Inr \<lparr>success = True, message = ''Event routed successfully''\<rparr>,
           w\<lparr>ledger := update_first (eventId data)
                 (\<lambda>d. d\<lparr>status := ROUTED, processedAt := Some (clock w + ROUTING_DELAY_MS),
                        updatedAt := clock w + ROUTING_DELAY_MS\<rparr>)
                 (update_first (eventId data)
                    (\<lambda>d. d\<lparr>attempts := attempts d + 1, updatedAt := clock w\<rparr>) (ledger w)),
             clock := clock w + ROUTING_DELAY_MS,
             calls := calls w @ [DbFindOne (eventId data), DbFindOne (eventId data),
               DbFindOneAndUpdate (eventId data) Inc_attempts, Route (eventId data),
               DbFindOneAndUpdate (eventId data) (Set_status ROUTED)]\<rparr>))"
  using assms
  by (simp add: processEvent_def eventExists_def getEventById_def emit_def
      incrementEventAttempts_eq markEventRouted_eq simulateRoutingService_def)

lemma processEvent_fresh_invalid:
  assumes "findOne (eventId data) (ledger w) = None" and "eventId data = [] \<or> type data = []"
  shows "processEvent rnd data made w =
    (Inl ValidationError, w\<lparr>calls := calls w @ [DbFindOne (eventId data)]\<rparr>)"
  using assms
  by (auto simp add: processEvent_def eventExists_def emit_def createEvent_def save_def
      validate_def new_Event_def)

lemma processEvent_fresh_valid:
  assumes "findOne (eventId data) (ledger w) = None" and "eventId data \<noteq> []" and "type data \<noteq> []"
  shows "processEvent rnd data made w =
    (if rnd < 1 / 10
     then (Inl RoutingUnavailable,
           w\<lparr>ledger := update_first (eventId data)
                 (\<lambda>d. d\<lparr>attempts := attempts d + 1, updatedAt := clock w\<rparr>)
                 (ledger w @ [new_Event data (clock w)]),
             clock := clock w + ROUTING_DELAY_MS,
             calls := calls w @ [DbFindOne (eventId data), DbSave (eventId data),
               DbFindOneAndUpdate (eventId data) Inc_attempts, Route (eventId data)]\<rparr>)
     else (Inr \<lparr>success = True, message = ''Event routed successfully''\<rparr>,
           w\<lparr>ledger := update_first (eventId data)
                 (\<lambda>d. d\<lparr>status := ROUTED, processedAt := Some (clock w + ROUTING_DELAY_MS),
                        updatedAt := clock w + ROUTING_DELAY_MS\<rparr>)
                 (update_first (eventId data)
                    (\<lambda>d. d\<lparr>attempts := attempts d + 1, updatedAt := clock w\<rparr>)
                    (ledger w @ [new_Event data (clock w)])),
             clock := clock w + ROUTING_DELAY_MS,
             calls := calls w @ [DbFindOne (eventId data), DbSave (eventId data),
               DbFindOneAndUpdate (eventId data) Inc_attempts, Route (eventId data),
               DbFindOneAndUpdate (eventId data) (Set_status ROUTED)]\<rparr>))"
  using assms
  by (simp add: processEvent_def eventExists_def emit_def createEvent_def save_def
      validate_def new_Event_def incrementEventAttempts_eq markEventRouted_eq
      simulateRoutingService_def)

lemma new_calls_append [simp]: "new_calls w (w'\<lparr>calls := calls w @ cs\<rparr>) = cs"
  by (simp add: new_calls_def)

text \<open>
  C2. When the ledger row of the event is \<open>ROUTED\<close>, a processing attempt reports
  success and changes nothing but the log of calls, to which it adds two look-ups of
  the row: the routing service is not called, the attempt counter is not incremented
  and the ledger is the same. The result does not depend on what the routing service
  would have answered (\<open>rnd\<close>).
\<close>

theorem processEvent_routed_skip:
  assumes "status_of (eventId data) w = Some ROUTED"
  shows "processEvent rnd data made w =
      (Inr \<lparr>success = True, message = ''Event already processed (idempotent skip)''\<rparr>,
       w\<lparr>calls := calls w @ [DbFindOne (eventId data), DbFindOne (eventId data)]\<rparr>)
    \<and> ledger (snd (processEvent rnd data made w)) = ledger w
    \<and> new_calls w (snd (processEvent rnd data made w))
        = [DbFindOne (eventId data), DbFindOne (eventId data)]"
proof -
  from assms obtain d where "findOne (eventId data) (ledger w) = Some d" "status d = ROUTED"
    by (auto simp: status_of_def)
  then show ?thesis
    by (simp add: processEvent_skip)
qed

theorem processEvent_routed_skip_witness:
  "status_of (eventId ex_data) ex_world_routed = Some ROUTED
   \<and> fst (processEvent (1 / 20) ex_data 0 ex_world_routed)
       = Inr \<lparr>success = True, message = ''Event already processed (idempotent skip)''\<rparr>
   \<and> ledger (snd (processEvent (1 / 20) ex_data 0 ex_world_routed)) = [ex_routed]
   \<and> calls (snd (processEvent (1 / 20) ex_data 0 ex_world_routed)) = [DbFindOne ''E1'', DbFindOne ''E1'']"
proof -
  have h: "status_of (eventId ex_data) ex_world_routed = Some ROUTED"
    by (simp add: status_of_def findOne_def ex_world_routed_def ex_routed_def new_Event_def
        ex_data_def ex_world_def)
  from processEvent_routed_skip[OF h, of "1 / 20" 0] h show ?thesis
    by (simp add: ex_world_routed_def ex_world_def ex_data_def)
qed

lemma findOne_append:
  "findOne eid (docs @ [d]) =
     (case findOne eid docs of Some x \<Rightarrow> Some x
      | None \<Rightarrow> if eventId d = eid then Some d else None)"
  by (induction docs) (auto simp: findOne_def)

text \<open>
  C7. When the routing service fails on the attempt for an event whose row is pending
  or does not exist yet (the data then pass the schema's validators),
  \<^verbatim>\<open>processEvent\<close> throws the routing error and the row is \<open>ROUTING_PENDING\<close>
  afterwards. No update of the status is issued; a row that existed differs from what
  it was only in \<open>attempts\<close> and \<open>updatedAt\<close>, and every other row is untouched.
  The attempt number plays no part.
\<close>

theorem processEvent_routing_failure:
  assumes fail: "rnd < 1 / 10"
    and pending: "status_of (eventId data) w = None \<or> status_of (eventId data) w = Some ROUTING_PENDING"
    and valid: "status_of (eventId data) w = None \<longrightarrow> eventId data \<noteq> [] \<and> type data \<noteq> []"
  shows "fst (processEvent rnd data made w) = Inl RoutingUnavailable
    \<and> ledger (snd (processEvent rnd data made w))
        = update_first (eventId data) (\<lambda>d. d\<lparr>attempts := attempts d + 1, updatedAt := clock w\<rparr>)
            (if findOne (eventId data) (ledger w) = None
             then ledger w @ [new_Event data (clock w)] else ledger w)
    \<and> status_of (eventId data) (snd (processEvent rnd data made w)) = Some ROUTING_PENDING
    \<and> (\<forall>d. findOne (eventId data) (ledger w) = Some d \<longrightarrow>
          findOne (eventId data) (ledger (snd (processEvent rnd data made w)))
            = Some (d\<lparr>attempts := attempts d + 1, updatedAt := clock w\<rparr>))
    \<and> (\<forall>eid. eid \<noteq> eventId data \<longrightarrow>
          findOne eid (ledger (snd (processEvent rnd data made w))) = findOne eid (ledger w))
    \<and> (\<forall>st. DbFindOneAndUpdate (eventId data) (Set_status st)
          \<notin> set (new_calls w (snd (processEvent rnd data made w))))"
proof (cases "findOne (eventId data) (ledger w)")
  case None
  with valid have "eventId data \<noteq> []" "type data \<noteq> []"
    by (simp_all add: status_of_def)
  with None fail show ?thesis
    by (auto simp add: processEvent_fresh_valid status_of_def findOne_update_first
        findOne_append new_Event_def split: option.splits)
next
  case (Some d)
  with pending have "status d = ROUTING_PENDING"
    by (simp add: status_of_def)
  with Some fail show ?thesis
    by (simp add: processEvent_existing status_of_def findOne_update_first)
qed

theorem processEvent_routing_failure_witness:
  "status_of (eventId ex_data) ex_world_pending = Some ROUTING_PENDING
   \<and> fst (processEvent (1 / 20) ex_data 0 ex_world_pending) = Inl RoutingUnavailable
   \<and> ledger (snd (processEvent (1 / 20) ex_data 0 ex_world_pending))
       = [(new_Event ex_data 0)\<lparr>attempts := 1, updatedAt := 10\<rparr>]"
proof -
  have h: "status_of (eventId ex_data) ex_world_pending = Some ROUTING_PENDING"
    by (simp add: status_of_def findOne_def ex_world_pending_def new_Event_def
        ex_data_def ex_world_def)
  have v: "status_of (eventId ex_data) ex_world_pending = None \<longrightarrow>
      eventId ex_data \<noteq> [] \<and> type ex_data \<noteq> []"
    by (simp add: ex_data_def)
  have f: "(1 / 20 :: rat) < 1 / 10" by simp
  from processEvent_routing_failure[OF f disjI2[OF h] v, of 0] h show ?thesis
    by (simp add: ex_world_pending_def ex_world_def ex_data_def new_Event_def findOne_def)
qed

section \<open>Properties of the worker and the retry schedule\<close>

lemma scheduled_delays_append [simp]:
  "scheduled_delays (xs @ ys) = scheduled_delays xs @ scheduled_delays ys"
  by (induction xs rule: scheduled_delays.induct) auto

lemma count_list_append [simp]: "count_list (xs @ ys) c = count_list xs c + count_list ys c"
  by (induction xs) auto

lemma worker_on_failed_retry:
  "attemptsMade job < opt_attempts (job_opts job) \<Longrightarrow> worker_on_failed (Some job) err w = w"
  by (simp add: worker_on_failed_def)

lemma worker_on_failed_final:
  assumes "(if opt_attempts (job_opts job) = 0 then 5 else opt_attempts (job_opts job))
             \<le> attemptsMade job"
  shows "worker_on_failed (Some job) err w =
    w\<lparr>ledger := update_first (eventId (job_data job))
          (\<lambda>d. d\<lparr>status := FAILED, error := Some (exn_message err), updatedAt := clock w\<rparr>) (ledger w),
      deadLetterQueue := (deadLetterQueue w)
        \<lparr>jobs := jobs (deadLetterQueue w) @
           [new_Job (Auto (next_id (deadLetterQueue w))) ''failed-event''
              \<lparr>originalJob = job_data job, dlq_error = exn_message err, failedAt = clock w,
               dlq_attempts = attemptsMade job\<rparr>
              (defaultJobOptions (deadLetterQueue w))],
         next_id := next_id (deadLetterQueue w) + 1\<rparr>,
      calls := calls w @ [DbFindOneAndUpdate (eventId (job_data job)) (Set_status FAILED),
        QueueAdd ''events-dlq'' ''failed-event'']\<rparr>"
  using assms
  by (simp add: worker_on_failed_def handleFinalFailure_def markEventFailed_eq addToDLQ_def
      Queue_add_def emit_def Let_def)


lemma run_job_retry:
  assumes "processEvent (rnd (attemptsMade job)) (job_data job) (attemptsMade job) w = (Inl err, w1)"
    and "attemptsMade job + 1 < opt_attempts (job_opts job)"
  shows "run_job rnd job w =
    run_job rnd (job\<lparr>attemptsMade := attemptsMade job + 1, job_state := delayed\<rparr>)
      (w1\<lparr>calls := calls w1 @ [ScheduleRetry (job_id job) (nextDelay (job_opts job) (attemptsMade job))],
          clock := clock w1 + nextDelay (job_opts job) (attemptsMade job)\<rparr>)"
  using assms
  by (subst run_job.simps)
    (simp add: processor_def retry_delay_def Let_def worker_on_failed_retry emit_def)

lemma run_job_exhausted:
  assumes "processEvent (rnd (attemptsMade job)) (job_data job) (attemptsMade job) w = (Inl err, w1)"
    and "\<not> attemptsMade job + 1 < opt_attempts (job_opts job)"
  shows "run_job rnd job w =
    (job\<lparr>attemptsMade := attemptsMade job + 1, job_state := failed\<rparr>,
     worker_on_failed (Some (job\<lparr>attemptsMade := attemptsMade job + 1, job_state := failed\<rparr>)) err w1)"
  using assms
  by (subst run_job.simps) (simp add: processor_def retry_delay_def Let_def)

lemma processEvent_routing_fails:
  assumes fail: "rnd < 1 / 10"
    and notrouted: "status_of (eventId data) w \<noteq> Some ROUTED"
    and valid: "status_of (eventId data) w = None \<longrightarrow> eventId data \<noteq> [] \<and> type data \<noteq> []"
  shows "\<exists>L cs. processEvent rnd data made w =
      (Inl RoutingUnavailable, w\<lparr>ledger := L, clock := clock w + ROUTING_DELAY_MS,
         calls := calls w @ cs\<rparr>)
    \<and> count_list cs (DbFindOneAndUpdate (eventId data) (Set_status FAILED)) = 0
    \<and> count_list cs (QueueAdd ''events-dlq'' ''failed-event'') = 0
    \<and> count_list cs (Route (eventId data)) = 1
    \<and> scheduled_delays cs = []
    \<and> (\<exists>d. findOne (eventId data) L = Some d \<and> status d \<noteq> ROUTED)
    \<and> (\<forall>eid. eid \<noteq> eventId data \<longrightarrow> findOne eid L = findOne eid (ledger w))"
proof (cases "findOne (eventId data) (ledger w)")
  case None
  with valid have v: "eventId data \<noteq> []" "type data \<noteq> []"
    by (simp_all add: status_of_def)
  show ?thesis
    apply (rule exI[of _ "update_first (eventId data)
                 (\<lambda>d. d\<lparr>attempts := attempts d + 1, updatedAt := clock w\<rparr>)
                 (ledger w @ [new_Event data (clock w)])"])
    apply (rule exI[of _ "[DbFindOne (eventId data), DbSave (eventId data),
               DbFindOneAndUpdate (eventId data) Inc_attempts, Route (eventId data)]"])
    using None v fail
    apply (auto simp add: processEvent_fresh_valid findOne_update_first findOne_append
        new_Event_def split: option.splits)
    done
next
  case (Some d)
  with notrouted have s: "status d \<noteq> ROUTED"
    by (simp add: status_of_def)
  show ?thesis
    apply (rule exI[of _ "update_first (eventId data)
                 (\<lambda>d. d\<lparr>attempts := attempts d + 1, updatedAt := clock w\<rparr>) (ledger w)"])
    apply (rule exI[of _ "[DbFindOne (eventId data), DbFindOne (eventId data),
               DbFindOneAndUpdate (eventId data) Inc_attempts, Route (eventId data)]"])
    using Some s fail
    apply (simp add: processEvent_existing findOne_update_first)
    done
qed

lemma run_job_all_fail:
  assumes fail: "\<forall>i. rnd i < 1 / 10"
  shows "attemptsMade job < opt_attempts (job_opts job) \<Longrightarrow>
    status_of (eventId (job_data job)) w \<noteq> Some ROUTED \<Longrightarrow>
    (status_of (eventId (job_data job)) w = None \<longrightarrow>
       eventId (job_data job) \<noteq> [] \<and> type (job_data job) \<noteq> []) \<Longrightarrow>
    \<exists>cs L t. run_job rnd job w =
        (job\<lparr>attemptsMade := opt_attempts (job_opts job), job_state := failed\<rparr>,
         w\<lparr>ledger := L,
           deadLetterQueue := (deadLetterQueue w)
             \<lparr>jobs := jobs (deadLetterQueue w) @
                [new_Job (Auto (next_id (deadLetterQueue w))) ''failed-event''
                   \<lparr>originalJob = job_data job,
                    dlq_error = ''Routing service temporarily unavailable'',
                    failedAt = t, dlq_attempts = opt_attempts (job_opts job)\<rparr>
                   (defaultJobOptions (deadLetterQueue w))],
              next_id := next_id (deadLetterQueue w) + 1\<rparr>,
           clock := t, calls := calls w @ cs\<rparr>)
      \<and> count_list cs (DbFindOneAndUpdate (eventId (job_data job)) (Set_status FAILED)) = 1
      \<and> count_list cs (QueueAdd ''events-dlq'' ''failed-event'') = 1
      \<and> count_list cs (Route (eventId (job_data job)))
          = opt_attempts (job_opts job) - attemptsMade job
      \<and> scheduled_delays cs
          = map (nextDelay (job_opts job)) [attemptsMade job..<opt_attempts (job_opts job) - 1]
      \<and> (\<exists>d. findOne (eventId (job_data job)) L = Some d \<and> status d = FAILED)
      \<and> (\<forall>eid. eid \<noteq> eventId (job_data job) \<longrightarrow> findOne eid L = findOne eid (ledger w))"
proof (induction "opt_attempts (job_opts job) - attemptsMade job" arbitrary: job w)
  case 0
  then show ?case by simp
next
  case (Suc m)
  let ?e = "eventId (job_data job)"
  let ?n = "opt_attempts (job_opts job)"
  let ?k = "attemptsMade job"
  from fail have f: "rnd ?k < 1 / 10" by simp
  from processEvent_routing_fails[OF f Suc.prems(2) Suc.prems(3), of ?k]
  obtain L1 cs1 where
    pe: "processEvent (rnd ?k) (job_data job) ?k w =
      (Inl RoutingUnavailable, w\<lparr>ledger := L1, clock := clock w + ROUTING_DELAY_MS,
         calls := calls w @ cs1\<rparr>)"
    and c1: "count_list cs1 (DbFindOneAndUpdate ?e (Set_status FAILED)) = 0"
      "count_list cs1 (QueueAdd ''events-dlq'' ''failed-event'') = 0"
      "count_list cs1 (Route ?e) = 1"
      "scheduled_delays cs1 = []"
    and row1: "\<exists>d. findOne ?e L1 = Some d \<and> status d \<noteq> ROUTED"
    and other1: "\<forall>eid. eid \<noteq> ?e \<longrightarrow> findOne eid L1 = findOne eid (ledger w)"
    by blast
  let ?w1 = "w\<lparr>ledger := L1, clock := clock w + ROUTING_DELAY_MS, calls := calls w @ cs1\<rparr>"
  show ?case
  proof (cases "?k + 1 < ?n")
    case True
    let ?d = "nextDelay (job_opts job) ?k"
    let ?job1 = "job\<lparr>attemptsMade := ?k + 1, job_state := delayed\<rparr>"
    let ?w2 = "?w1\<lparr>calls := calls ?w1 @ [ScheduleRetry (job_id job) ?d],
                  clock := clock ?w1 + ?d\<rparr>"
    have step: "run_job rnd job w = run_job rnd ?job1 ?w2"
      using run_job_retry[where rnd=rnd and job=job, OF pe True] by simp
    have m: "m = opt_attempts (job_opts ?job1) - attemptsMade ?job1"
      using Suc.hyps(2) by simp
    have p1: "attemptsMade ?job1 < opt_attempts (job_opts ?job1)"
      using True by simp
    have p2: "status_of (eventId (job_data ?job1)) ?w2 \<noteq> Some ROUTED"
      using row1 by (auto simp: status_of_def)
    have p3: "status_of (eventId (job_data ?job1)) ?w2 = None \<longrightarrow>
       eventId (job_data ?job1) \<noteq> [] \<and> type (job_data ?job1) \<noteq> []"
      using row1 by (auto simp: status_of_def)
    from Suc.hyps(1)[OF m p1 p2 p3]
    obtain cs L t where
      rj: "run_job rnd ?job1 ?w2 =
        (?job1\<lparr>attemptsMade := opt_attempts (job_opts ?job1), job_state := failed\<rparr>,
         ?w2\<lparr>ledger := L,
           deadLetterQueue := (deadLetterQueue ?w2)
             \<lparr>jobs := jobs (deadLetterQueue ?w2) @
                [new_Job (Auto (next_id (deadLetterQueue ?w2))) ''failed-event''
                   \<lparr>originalJob = job_data ?job1,
                    dlq_error = ''Routing service temporarily unavailable'',
                    failedAt = t, dlq_attempts = opt_attempts (job_opts ?job1)\<rparr>
                   (defaultJobOptions (deadLetterQueue ?w2))],
              next_id := next_id (deadLetterQueue ?w2) + 1\<rparr>,
           clock := t, calls := calls ?w2 @ cs\<rparr>)"
      and c2: "count_list cs (DbFindOneAndUpdate (eventId (job_data ?job1)) (Set_status FAILED)) = 1"
        "count_list cs (QueueAdd ''events-dlq'' ''failed-event'') = 1"
        "count_list cs (Route (eventId (job_data ?job1)))
          = opt_attempts (job_opts ?job1) - attemptsMade ?job1"
        "scheduled_delays cs
          = map (nextDelay (job_opts ?job1)) [attemptsMade ?job1..<opt_attempts (job_opts ?job1) - 1]"
      and row2: "\<exists>d. findOne (eventId (job_data ?job1)) L = Some d \<and> status d = FAILED"
      and other2: "\<forall>eid. eid \<noteq> eventId (job_data ?job1) \<longrightarrow> findOne eid L = findOne eid (ledger ?w2)"
      by blast
    have upt: "[?k..<?n - Suc 0] = ?k # [Suc ?k..<?n - Suc 0]"
      using True by (simp add: upt_conv_Cons)
    have eqj: "?job1\<lparr>attemptsMade := opt_attempts (job_opts ?job1), job_state := failed\<rparr>
        = job\<lparr>attemptsMade := ?n, job_state := failed\<rparr>"
      by simp
    have eqw: "?w2\<lparr>ledger := L,
           deadLetterQueue := (deadLetterQueue ?w2)
             \<lparr>jobs := jobs (deadLetterQueue ?w2) @
                [new_Job (Auto (next_id (deadLetterQueue ?w2))) ''failed-event''
                   \<lparr>originalJob = job_data ?job1,
                    dlq_error = ''Routing service temporarily unavailable'',
                    failedAt = t, dlq_attempts = opt_attempts (job_opts ?job1)\<rparr>
                   (defaultJobOptions (deadLetterQueue ?w2))],
              next_id := next_id (deadLetterQueue ?w2) + 1\<rparr>,
           clock := t, calls := calls ?w2 @ cs\<rparr>
        = w\<lparr>ledger := L,
           deadLetterQueue := (deadLetterQueue w)
             \<lparr>jobs := jobs (deadLetterQueue w) @
                [new_Job (Auto (next_id (deadLetterQueue w))) ''failed-event''
                   \<lparr>originalJob = job_data job,
                    dlq_error = ''Routing service temporarily unavailable'',
                    failedAt = t, dlq_attempts = ?n\<rparr>
                   (defaultJobOptions (deadLetterQueue w))],
              next_id := next_id (deadLetterQueue w) + 1\<rparr>,
           clock := t,
           calls := calls w @ (cs1 @ [ScheduleRetry (job_id job) ?d] @ cs)\<rparr>"
      by simp
    have res: "run_job rnd job w =
        (job\<lparr>attemptsMade := ?n, job_state := failed\<rparr>,
         w\<lparr>ledger := L,
           deadLetterQueue := (deadLetterQueue w)
             \<lparr>jobs := jobs (deadLetterQueue w) @
                [new_Job (Auto (next_id (deadLetterQueue w))) ''failed-event''
                   \<lparr>originalJob = job_data job,
                    dlq_error = ''Routing service temporarily unavailable'',
                    failedAt = t, dlq_attempts = ?n\<rparr>
                   (defaultJobOptions (deadLetterQueue w))],
              next_id := next_id (deadLetterQueue w) + 1\<rparr>,
           clock := t,
           calls := calls w @ (cs1 @ [ScheduleRetry (job_id job) ?d] @ cs)\<rparr>)"
      by (simp only: step rj eqj eqw)
    have counts: "count_list (cs1 @ [ScheduleRetry (job_id job) ?d] @ cs)
          (DbFindOneAndUpdate ?e (Set_status FAILED)) = 1"
      "count_list (cs1 @ [ScheduleRetry (job_id job) ?d] @ cs)
          (QueueAdd ''events-dlq'' ''failed-event'') = 1"
      "count_list (cs1 @ [ScheduleRetry (job_id job) ?d] @ cs) (Route ?e) = ?n - ?k"
      "scheduled_delays (cs1 @ [ScheduleRetry (job_id job) ?d] @ cs)
        = map (nextDelay (job_opts job)) [?k..<?n - 1]"
      using c1 c2 True by (simp_all add: upt)
    have rows: "\<exists>d. findOne ?e L = Some d \<and> status d = FAILED"
      "\<forall>eid. eid \<noteq> ?e \<longrightarrow> findOne eid L = findOne eid (ledger w)"
      using row2 other1 other2 by simp_all
    from res counts rows show ?thesis
      by blast
  next
    case False
    with Suc.prems(1) have n: "?n = ?k + 1" by simp
    let ?job1 = "job\<lparr>attemptsMade := ?k + 1, job_state := failed\<rparr>"
    have fin: "(if opt_attempts (job_opts ?job1) = 0 then 5 else opt_attempts (job_opts ?job1))
        \<le> attemptsMade ?job1"
      using n by simp
    have step: "run_job rnd job w = (?job1, worker_on_failed (Some ?job1) RoutingUnavailable ?w1)"
      using run_job_exhausted[where rnd=rnd and job=job, OF pe False] by simp
    from row1 obtain d where d: "findOne ?e L1 = Some d" by blast
    let ?Lf = "update_first ?e
          (\<lambda>d. d\<lparr>status := FAILED, error := Some (exn_message RoutingUnavailable),
             updatedAt := clock ?w1\<rparr>) L1"
    let ?csf = "cs1 @ [DbFindOneAndUpdate ?e (Set_status FAILED),
        QueueAdd ''events-dlq'' ''failed-event'']"
    have wf: "worker_on_failed (Some ?job1) RoutingUnavailable ?w1 =
        w\<lparr>ledger := ?Lf,
           deadLetterQueue := (deadLetterQueue w)
             \<lparr>jobs := jobs (deadLetterQueue w) @
                [new_Job (Auto (next_id (deadLetterQueue w))) ''failed-event''
                   \<lparr>originalJob = job_data job,
                    dlq_error = ''Routing service temporarily unavailable'',
                    failedAt = clock ?w1, dlq_attempts = ?n\<rparr>
                   (defaultJobOptions (deadLetterQueue w))],
              next_id := next_id (deadLetterQueue w) + 1\<rparr>,
           clock := clock ?w1, calls := calls w @ ?csf\<rparr>"
      using worker_on_failed_final[OF fin, of RoutingUnavailable ?w1] n by simp
    have eqj: "?job1 = job\<lparr>attemptsMade := ?n, job_state := failed\<rparr>"
      using n by simp
    have res: "run_job rnd job w =
        (job\<lparr>attemptsMade := ?n, job_state := failed\<rparr>,
         w\<lparr>ledger := ?Lf,
           deadLetterQueue := (deadLetterQueue w)
             \<lparr>jobs := jobs (deadLetterQueue w) @
                [new_Job (Auto (next_id (deadLetterQueue w))) ''failed-event''
                   \<lparr>originalJob = job_data job,
                    dlq_error = ''Routing service temporarily unavailable'',
                    failedAt = clock ?w1, dlq_attempts = ?n\<rparr>
                   (defaultJobOptions (deadLetterQueue w))],
              next_id := next_id (deadLetterQueue w) + 1\<rparr>,
           clock := clock ?w1, calls := calls w @ ?csf\<rparr>)"
      using step wf eqj by simp
    have counts: "count_list ?csf (DbFindOneAndUpdate ?e (Set_status FAILED)) = 1"
      "count_list ?csf (QueueAdd ''events-dlq'' ''failed-event'') = 1"
      "count_list ?csf (Route ?e) = ?n - ?k"
      "scheduled_delays ?csf = map (nextDelay (job_opts job)) [?k..<?n - 1]"
      using c1 n by simp_all
    have rows: "\<exists>d. findOne ?e ?Lf = Some d \<and> status d = FAILED"
      "\<forall>eid. eid \<noteq> ?e \<longrightarrow> findOne eid ?Lf = findOne eid (ledger w)"
      using d other1 by (simp_all add: findOne_update_first)
    from res counts rows show ?thesis
      by blast
  qed
qed

lemma new_calls_eq: "calls w' = calls w @ cs \<Longrightarrow> new_calls w w' = cs"
  by (simp add: new_calls_def)

text \<open>
  C4, as amended. A job with attempts left (so at least one attempt is configured)
  whose every routing call fails, the row not being \<open>ROUTED\<close> and the data passing the
  schema's validators if the row is still to be created: the update to \<open>FAILED\<close> is
  issued exactly once and the row ends \<open>FAILED\<close>; exactly one entry is added to the
  dead-letter queue, carrying the job's data and \<open>attempts\<close> equal to the configured
  number of attempts; the routing service was called once per remaining attempt.
\<close>

theorem exhaustion_to_dlq:
  assumes fail: "\<forall>i. rnd i < 1 / 10"
    and left: "attemptsMade job < opt_attempts (job_opts job)"
    and notrouted: "status_of (eventId (job_data job)) w \<noteq> Some ROUTED"
    and valid: "status_of (eventId (job_data job)) w = None \<longrightarrow>
       eventId (job_data job) \<noteq> [] \<and> type (job_data job) \<noteq> []"
  shows "count_list (new_calls w (snd (run_job rnd job w)))
        (DbFindOneAndUpdate (eventId (job_data job)) (Set_status FAILED)) = 1
    \<and> status_of (eventId (job_data job)) (snd (run_job rnd job w)) = Some FAILED
    \<and> count_list (new_calls w (snd (run_job rnd job w)))
        (QueueAdd ''events-dlq'' ''failed-event'') = 1
    \<and> (\<exists>entry. jobs (deadLetterQueue (snd (run_job rnd job w)))
          = jobs (deadLetterQueue w) @ [entry]
        \<and> originalJob (job_data entry) = job_data job
        \<and> dlq_attempts (job_data entry) = opt_attempts (job_opts job))
    \<and> count_list (new_calls w (snd (run_job rnd job w))) (Route (eventId (job_data job)))
        = opt_attempts (job_opts job) - attemptsMade job
    \<and> attemptsMade (fst (run_job rnd job w)) = opt_attempts (job_opts job)
    \<and> job_state (fst (run_job rnd job w)) = failed"
proof -
  from run_job_all_fail[OF fail left notrouted valid]
  obtain cs L t where
    rj: "run_job rnd job w =
        (job\<lparr>attemptsMade := opt_attempts (job_opts job), job_state := failed\<rparr>,
         w\<lparr>ledger := L,
           deadLetterQueue := (deadLetterQueue w)
             \<lparr>jobs := jobs (deadLetterQueue w) @
                [new_Job (Auto (next_id (deadLetterQueue w))) ''failed-event''
                   \<lparr>originalJob = job_data job,
                    dlq_error = ''Routing service temporarily unavailable'',
                    failedAt = t, dlq_attempts = opt_attempts (job_opts job)\<rparr>
                   (defaultJobOptions (deadLetterQueue w))],
              next_id := next_id (deadLetterQueue w) + 1\<rparr>,
           clock := t, calls := calls w @ cs\<rparr>)"
    and counts: "count_list cs (DbFindOneAndUpdate (eventId (job_data job)) (Set_status FAILED)) = 1"
      "count_list cs (QueueAdd ''events-dlq'' ''failed-event'') = 1"
      "count_list cs (Route (eventId (job_data job)))
          = opt_attempts (job_opts job) - attemptsMade job"
    and row: "\<exists>d. findOne (eventId (job_data job)) L = Some d \<and> status d = FAILED"
    by blast
  have nc: "new_calls w (snd (run_job rnd job w)) = cs"
    by (simp add: rj)
  from row have st: "status_of (eventId (job_data job)) (snd (run_job rnd job w)) = Some FAILED"
    by (auto simp: rj status_of_def)
  show ?thesis
    unfolding nc using counts st by (simp add: rj new_Job_def)
qed

theorem exhaustion_to_dlq_witness:
  "count_list (new_calls ex_world (snd (run_job always_fails ex_job ex_world)))
        (DbFindOneAndUpdate ''E1'' (Set_status FAILED)) = 1
   \<and> status_of ''E1'' (snd (run_job always_fails ex_job ex_world)) = Some FAILED
   \<and> count_list (new_calls ex_world (snd (run_job always_fails ex_job ex_world)))
        (QueueAdd ''events-dlq'' ''failed-event'') = 1
   \<and> count_list (new_calls ex_world (snd (run_job always_fails ex_job ex_world))) (Route ''E1'') = 5
   \<and> attemptsMade (fst (run_job always_fails ex_job ex_world)) = 5"
proof -
  have f: "\<forall>i. always_fails i < 1 / 10" by (simp add: always_fails_def)
  have l: "attemptsMade ex_job < opt_attempts (job_opts ex_job)"
    by (simp add: ex_job_def new_Job_def eventQueue_options_def MAX_RETRY_ATTEMPTS_def)
  have s: "status_of (eventId (job_data ex_job)) ex_world \<noteq> Some ROUTED"
    by (simp add: status_of_def findOne_def ex_world_def)
  have v: "status_of (eventId (job_data ex_job)) ex_world = None \<longrightarrow>
       eventId (job_data ex_job) \<noteq> [] \<and> type (job_data ex_job) \<noteq> []"
    by (simp add: ex_job_def new_Job_def ex_data_def)
  from exhaustion_to_dlq[OF f l s v] show ?thesis
    by (simp add: ex_job_def new_Job_def ex_data_def eventQueue_options_def
        MAX_RETRY_ATTEMPTS_def)
qed

text \<open>
  With the number of attempts configured as 0 the job still runs once, and the
  handler's fallback \<^verbatim>\<open>job.opts.attempts || 5\<close> then compares the one failure with
  5: the job fails without a dead letter and without its status being set.
\<close>

lemma zero_attempts_not_dead_lettered:
  assumes fail: "rnd 0 < 1 / 10"
    and fresh: "attemptsMade job = 0" and zero: "opt_attempts (job_opts job) = 0"
    and notrouted: "status_of (eventId (job_data job)) w \<noteq> Some ROUTED"
    and valid: "status_of (eventId (job_data job)) w = None \<longrightarrow>
       eventId (job_data job) \<noteq> [] \<and> type (job_data job) \<noteq> []"
  shows "run_job rnd job w =
      (job\<lparr>attemptsMade := 1, job_state := failed\<rparr>,
       snd (processEvent (rnd 0) (job_data job) 0 w))
    \<and> deadLetterQueue (snd (run_job rnd job w)) = deadLetterQueue w
    \<and> status_of (eventId (job_data job)) (snd (run_job rnd job w))
        = Some (case status_of (eventId (job_data job)) w of
                  None \<Rightarrow> ROUTING_PENDING | Some s \<Rightarrow> s)"
proof -
  from processEvent_routing_fails[OF fail notrouted valid, of 0]
  obtain L cs where
    pe: "processEvent (rnd 0) (job_data job) 0 w =
      (Inl RoutingUnavailable, w\<lparr>ledger := L, clock := clock w + ROUTING_DELAY_MS,
         calls := calls w @ cs\<rparr>)"
    by blast
  let ?w1 = "w\<lparr>ledger := L, clock := clock w + ROUTING_DELAY_MS, calls := calls w @ cs\<rparr>"
  have pe': "processEvent (rnd (attemptsMade job)) (job_data job) (attemptsMade job) w
      = (Inl RoutingUnavailable, ?w1)"
    using pe fresh by simp
  have last: "\<not> attemptsMade job + 1 < opt_attempts (job_opts job)"
    using zero by simp
  have run: "run_job rnd job w = (job\<lparr>attemptsMade := 1, job_state := failed\<rparr>, ?w1)"
    using run_job_exhausted[where rnd=rnd and job=job, OF pe' last] fresh zero
    by (simp add: worker_on_failed_def)
  have st0: "status_of (eventId (job_data job)) (snd (processEvent (rnd 0) (job_data job) 0 w))
        = Some (case status_of (eventId (job_data job)) w of
                  None \<Rightarrow> ROUTING_PENDING | Some s \<Rightarrow> s)"
  proof (cases "findOne (eventId (job_data job)) (ledger w)")
    case None
    with valid have "eventId (job_data job) \<noteq> []" "type (job_data job) \<noteq> []"
      by (simp_all add: status_of_def)
    with None fail show ?thesis
      by (simp add: processEvent_fresh_valid status_of_def findOne_update_first
          findOne_append new_Event_def)
  next
    case (Some d)
    with notrouted have "status d \<noteq> ROUTED" by (simp add: status_of_def)
    with Some fail show ?thesis
      by (simp add: processEvent_existing status_of_def findOne_update_first)
  qed
  have st: "status_of (eventId (job_data job)) ?w1
        = Some (case status_of (eventId (job_data job)) w of
                  None \<Rightarrow> ROUTING_PENDING | Some s \<Rightarrow> s)"
    using st0 unfolding pe by simp
  show ?thesis
    using st by (simp add: run pe)
qed

lemma run_job_invalid:
  "attemptsMade job < opt_attempts (job_opts job) \<Longrightarrow>
   findOne (eventId (job_data job)) (ledger w) = None \<Longrightarrow>
   eventId (job_data job) = [] \<or> type (job_data job) = [] \<Longrightarrow>
   \<exists>cs t. run_job rnd job w =
        (job\<lparr>attemptsMade := opt_attempts (job_opts job), job_state := failed\<rparr>,
         w\<lparr>deadLetterQueue := (deadLetterQueue w)
             \<lparr>jobs := jobs (deadLetterQueue w) @
                [new_Job (Auto (next_id (deadLetterQueue w))) ''failed-event''
                   \<lparr>originalJob = job_data job,
                    dlq_error = ''Event validation failed'',
                    failedAt = t, dlq_attempts = opt_attempts (job_opts job)\<rparr>
                   (defaultJobOptions (deadLetterQueue w))],
              next_id := next_id (deadLetterQueue w) + 1\<rparr>,
           clock := t, calls := calls w @ cs\<rparr>)"
proof (induction "opt_attempts (job_opts job) - attemptsMade job" arbitrary: job w)
  case 0
  then show ?case by simp
next
  case (Suc m)
  let ?e = "eventId (job_data job)"
  let ?n = "opt_attempts (job_opts job)"
  let ?k = "attemptsMade job"
  let ?w1 = "w\<lparr>calls := calls w @ [DbFindOne ?e]\<rparr>"
  have pe: "processEvent (rnd ?k) (job_data job) ?k w = (Inl ValidationError, ?w1)"
    using processEvent_fresh_invalid[OF Suc.prems(2) Suc.prems(3)] by simp
  show ?case
  proof (cases "?k + 1 < ?n")
    case True
    let ?d = "nextDelay (job_opts job) ?k"
    let ?job1 = "job\<lparr>attemptsMade := ?k + 1, job_state := delayed\<rparr>"
    let ?w2 = "?w1\<lparr>calls := calls ?w1 @ [ScheduleRetry (job_id job) ?d],
                  clock := clock ?w1 + ?d\<rparr>"
    have step: "run_job rnd job w = run_job rnd ?job1 ?w2"
      using run_job_retry[where rnd=rnd and job=job, OF pe True] by simp
    have m: "m = opt_attempts (job_opts ?job1) - attemptsMade ?job1"
      using Suc.hyps(2) by simp
    have p1: "attemptsMade ?job1 < opt_attempts (job_opts ?job1)"
      using True by simp
    have p2: "findOne (eventId (job_data ?job1)) (ledger ?w2) = None"
      using Suc.prems(2) by simp
    have p3: "eventId (job_data ?job1) = [] \<or> type (job_data ?job1) = []"
      using Suc.prems(3) by simp
    from Suc.hyps(1)[OF m p1 p2 p3]
    obtain cs t where
      rj: "run_job rnd ?job1 ?w2 =
        (?job1\<lparr>attemptsMade := opt_attempts (job_opts ?job1), job_state := failed\<rparr>,
         ?w2\<lparr>deadLetterQueue := (deadLetterQueue ?w2)
             \<lparr>jobs := jobs (deadLetterQueue ?w2) @
                [new_Job (Auto (next_id (deadLetterQueue ?w2))) ''failed-event''
                   \<lparr>originalJob = job_data ?job1,
                    dlq_error = ''Event validation failed'',
                    failedAt = t, dlq_attempts = opt_attempts (job_opts ?job1)\<rparr>
                   (defaultJobOptions (deadLetterQueue ?w2))],
              next_id := next_id (deadLetterQueue ?w2) + 1\<rparr>,
           clock := t, calls := calls ?w2 @ cs\<rparr>)"
      by blast
    have res: "run_job rnd job w =
        (job\<lparr>attemptsMade := ?n, job_state := failed\<rparr>,
         w\<lparr>deadLetterQueue := (deadLetterQueue w)
             \<lparr>jobs := jobs (deadLetterQueue w) @
                [new_Job (Auto (next_id (deadLetterQueue w))) ''failed-event''
                   \<lparr>originalJob = job_data job,
                    dlq_error = ''Event validation failed'',
                    failedAt = t, dlq_attempts = ?n\<rparr>
                   (defaultJobOptions (deadLetterQueue w))],
              next_id := next_id (deadLetterQueue w) + 1\<rparr>,
           clock := t,
           calls := calls w @ ([DbFindOne ?e, ScheduleRetry (job_id job) ?d] @ cs)\<rparr>)"
      using step rj by simp
    then show ?thesis by blast
  next
    case False
    with Suc.prems(1) have n: "?n = ?k + 1" by simp
    let ?job1 = "job\<lparr>attemptsMade := ?k + 1, job_state := failed\<rparr>"
    have fin: "(if opt_attempts (job_opts ?job1) = 0 then 5 else opt_attempts (job_opts ?job1))
        \<le> attemptsMade ?job1"
      using n by simp
    have step: "run_job rnd job w = (?job1, worker_on_failed (Some ?job1) ValidationError ?w1)"
      using run_job_exhausted[where rnd=rnd and job=job, OF pe False] by simp
    have res: "run_job rnd job w =
        (job\<lparr>attemptsMade := ?n, job_state := failed\<rparr>,
         w\<lparr>deadLetterQueue := (deadLetterQueue w)
             \<lparr>jobs := jobs (deadLetterQueue w) @
                [new_Job (Auto (next_id (deadLetterQueue w))) ''failed-event''
                   \<lparr>originalJob = job_data job,
                    dlq_error = ''Event validation failed'',
                    failedAt = clock w, dlq_attempts = ?n\<rparr>
                   (defaultJobOptions (deadLetterQueue w))],
              next_id := next_id (deadLetterQueue w) + 1\<rparr>,
           clock := clock w,
           calls := calls w @ [DbFindOne ?e,
             DbFindOneAndUpdate ?e (Set_status FAILED), QueueAdd ''events-dlq'' ''failed-event'']\<rparr>)"
      using step worker_on_failed_final[OF fin, of ValidationError ?w1] n Suc.prems(2)
      by (simp add: update_first_absent)
    then show ?thesis by blast
  qed
qed

text \<open>
  C4 as stated fails for two kinds of event all of whose attempts fail. A job whose
  data the schema rejects fails each of its five attempts in \<^verbatim>\<open>createEvent\<close> and
  gets its dead letter, but there is no row to set to \<open>FAILED\<close>. And with the number
  of attempts configured as 0 the one attempt fails and the job fails for good, but
  the handler then compares with 5: no dead letter is written and the row stays
  \<open>ROUTING_PENDING\<close>.
\<close>

theorem exhaustion_without_failed_row_counterexample:
  "job_state (fst (run_job always_fails ex_bad_job ex_world)) = failed
   \<and> attemptsMade (fst (run_job always_fails ex_bad_job ex_world)) = 5
   \<and> length (jobs (deadLetterQueue (snd (run_job always_fails ex_bad_job ex_world)))) = 1
   \<and> status_of ''E2'' (snd (run_job always_fails ex_bad_job ex_world)) = None
   \<and> job_state (fst (run_job always_fails ex_zero_job ex_world)) = failed
   \<and> jobs (deadLetterQueue (snd (run_job always_fails ex_zero_job ex_world))) = []
   \<and> status_of ''E1'' (snd (run_job always_fails ex_zero_job ex_world)) = Some ROUTING_PENDING"
proof -
  have l: "attemptsMade ex_bad_job < opt_attempts (job_opts ex_bad_job)"
    by (simp add: ex_bad_job_def new_Job_def eventQueue_options_def MAX_RETRY_ATTEMPTS_def)
  have a: "findOne (eventId (job_data ex_bad_job)) (ledger ex_world) = None"
    by (simp add: findOne_def ex_world_def)
  have i: "eventId (job_data ex_bad_job) = [] \<or> type (job_data ex_bad_job) = []"
    by (simp add: ex_bad_job_def new_Job_def ex_bad_data_def)
  from run_job_invalid[OF l a i, of always_fails] obtain cs t where
    rj: "run_job always_fails ex_bad_job ex_world =
        (ex_bad_job\<lparr>attemptsMade := opt_attempts (job_opts ex_bad_job), job_state := failed\<rparr>,
         ex_world\<lparr>deadLetterQueue := (deadLetterQueue ex_world)
             \<lparr>jobs := jobs (deadLetterQueue ex_world) @
                [new_Job (Auto (next_id (deadLetterQueue ex_world))) ''failed-event''
                   \<lparr>originalJob = job_data ex_bad_job,
                    dlq_error = ''Event validation failed'',
                    failedAt = t, dlq_attempts = opt_attempts (job_opts ex_bad_job)\<rparr>
                   (defaultJobOptions (deadLetterQueue ex_world))],
              next_id := next_id (deadLetterQueue ex_world) + 1\<rparr>,
           clock := t, calls := calls ex_world @ cs\<rparr>)"
    by blast
  have bad: "job_state (fst (run_job always_fails ex_bad_job ex_world)) = failed"
    "attemptsMade (fst (run_job always_fails ex_bad_job ex_world)) = 5"
    "length (jobs (deadLetterQueue (snd (run_job always_fails ex_bad_job ex_world)))) = 1"
    "status_of ''E2'' (snd (run_job always_fails ex_bad_job ex_world)) = None"
    unfolding rj
    by (simp_all add: ex_bad_job_def new_Job_def eventQueue_options_def MAX_RETRY_ATTEMPTS_def
        ex_world_def status_of_def findOne_def)
  have f: "always_fails 0 < 1 / 10" by (simp add: always_fails_def)
  have z: "attemptsMade ex_zero_job = 0" "opt_attempts (job_opts ex_zero_job) = 0"
    by (simp_all add: ex_zero_job_def new_Job_def)
  have s: "status_of (eventId (job_data ex_zero_job)) ex_world \<noteq> Some ROUTED"
    by (simp add: status_of_def findOne_def ex_world_def)
  have v: "status_of (eventId (job_data ex_zero_job)) ex_world = None \<longrightarrow>
       eventId (job_data ex_zero_job) \<noteq> [] \<and> type (job_data ex_zero_job) \<noteq> []"
    by (simp add: ex_zero_job_def new_Job_def ex_data_def)
  have e: "eventId (job_data ex_zero_job) = ''E1''"
    by (simp add: ex_zero_job_def new_Job_def ex_data_def)
  have n: "status_of ''E1'' ex_world = None" "jobs (deadLetterQueue ex_world) = []"
    by (simp_all add: status_of_def findOne_def ex_world_def)
  note zr = zero_attempts_not_dead_lettered[where rnd=always_fails, OF f z s v]
  from zr have z1: "job_state (fst (run_job always_fails ex_zero_job ex_world)) = failed"
    by simp
  from zr have z2: "deadLetterQueue (snd (run_job always_fails ex_zero_job ex_world))
      = deadLetterQueue ex_world"
    by blast
  from zr have z3: "status_of (eventId (job_data ex_zero_job))
        (snd (run_job always_fails ex_zero_job ex_world))
      = Some (case status_of (eventId (job_data ex_zero_job)) ex_world of
                None \<Rightarrow> ROUTING_PENDING | Some s \<Rightarrow> s)"
    by blast
  have zero: "jobs (deadLetterQueue (snd (run_job always_fails ex_zero_job ex_world))) = []"
    "status_of ''E1'' (snd (run_job always_fails ex_zero_job ex_world)) = Some ROUTING_PENDING"
    using z3 by (simp_all add: z2 e n)
  from bad z1 zero show ?thesis by simp
qed


text \<open>
  What the run of a job schedules. A job whose routing fails at every attempt is
  delayed after each attempt but its last, by the delay of that attempt's index: with
  the default policy a fresh job waits 1000, 2000, 4000 and 8000 milliseconds, and the
  failure of its fifth attempt, the one with index 4, is final.
\<close>

lemma failing_job_delays:
  assumes fail: "\<forall>i. rnd i < 1 / 10"
    and left: "attemptsMade job < opt_attempts (job_opts job)"
    and notrouted: "status_of (eventId (job_data job)) w \<noteq> Some ROUTED"
    and valid: "status_of (eventId (job_data job)) w = None \<longrightarrow>
       eventId (job_data job) \<noteq> [] \<and> type (job_data job) \<noteq> []"
  shows "scheduled_delays (new_calls w (snd (run_job rnd job w)))
    = map (nextDelay (job_opts job)) [attemptsMade job..<opt_attempts (job_opts job) - 1]"
proof -
  from run_job_all_fail[OF fail left notrouted valid]
  obtain cs L t where
    rj: "run_job rnd job w =
        (job\<lparr>attemptsMade := opt_attempts (job_opts job), job_state := failed\<rparr>,
         w\<lparr>ledger := L,
           deadLetterQueue := (deadLetterQueue w)
             \<lparr>jobs := jobs (deadLetterQueue w) @
                [new_Job (Auto (next_id (deadLetterQueue w))) ''failed-event''
                   \<lparr>originalJob = job_data job,
                    dlq_error = ''Routing service temporarily unavailable'',
                    failedAt = t, dlq_attempts = opt_attempts (job_opts job)\<rparr>
                   (defaultJobOptions (deadLetterQueue w))],
              next_id := next_id (deadLetterQueue w) + 1\<rparr>,
           clock := t, calls := calls w @ cs\<rparr>)"
    and sd: "scheduled_delays cs
          = map (nextDelay (job_opts job)) [attemptsMade job..<opt_attempts (job_opts job) - 1]"
    by blast
  show ?thesis
    using sd by (simp add: rj)
qed

lemma default_job_delays:
  "scheduled_delays (new_calls ex_world (snd (run_job always_fails ex_job ex_world)))
     = [1000, 2000, 4000, 8000]"
proof -
  have f: "\<forall>i. always_fails i < 1 / 10" by (simp add: always_fails_def)
  have l: "attemptsMade ex_job < opt_attempts (job_opts ex_job)"
    by (simp add: ex_job_def new_Job_def eventQueue_options_def MAX_RETRY_ATTEMPTS_def)
  have s: "status_of (eventId (job_data ex_job)) ex_world \<noteq> Some ROUTED"
    by (simp add: status_of_def findOne_def ex_world_def)
  have v: "status_of (eventId (job_data ex_job)) ex_world = None \<longrightarrow>
       eventId (job_data ex_job) \<noteq> [] \<and> type (job_data ex_job) \<noteq> []"
    by (simp add: ex_job_def new_Job_def ex_data_def)
  have four: "[0..<4] = [0, 1, 2, 3::nat]"
    by (simp add: upt_rec)
  show ?thesis
    unfolding failing_job_delays[OF f l s v]
    by (simp add: ex_job_def new_Job_def eventQueue_options_def MAX_RETRY_ATTEMPTS_def
        RETRY_DELAY_def nextDelay_def four)
qed

text \<open>
  C9. On a ledger without a row for the event, \<^verbatim>\<open>markEventFailed\<close> and
  \<^verbatim>\<open>markEventRouted\<close> return null and leave the ledger as it is. So the handler of
  the \<^verbatim>\<open>failed\<close> event, for a job that has used its attempts, adds the dead-letter
  entry and the ledger still has no row; and a job whose data the schema rejects
  runs through all its attempts without a row ever being created, ends in the
  dead-letter queue, and the ledger is unchanged.
\<close>

theorem missing_row_not_upserted:
  assumes absent: "findOne eid (ledger w) = None"
  shows "fst (markEventFailed eid err w) = None
    \<and> ledger (snd (markEventFailed eid err w)) = ledger w
    \<and> fst (markEventRouted eid w) = None
    \<and> ledger (snd (markEventRouted eid w)) = ledger w
    \<and> (\<forall>job e. eventId (job_data job) = eid
          \<and> (if opt_attempts (job_opts job) = 0 then 5 else opt_attempts (job_opts job))
               \<le> attemptsMade job \<longrightarrow>
          ledger (worker_on_failed (Some job) e w) = ledger w
          \<and> jobs (deadLetterQueue (worker_on_failed (Some job) e w))
              = jobs (deadLetterQueue w) @
                [new_Job (Auto (next_id (deadLetterQueue w))) ''failed-event''
                   \<lparr>originalJob = job_data job, dlq_error = exn_message e,
                    failedAt = clock w, dlq_attempts = attemptsMade job\<rparr>
                   (defaultJobOptions (deadLetterQueue w))])
    \<and> (\<forall>rnd job. eventId (job_data job) = eid
          \<and> (eid = [] \<or> type (job_data job) = [])
          \<and> attemptsMade job < opt_attempts (job_opts job) \<longrightarrow>
          ledger (snd (run_job rnd job w)) = ledger w
          \<and> (\<exists>entry. jobs (deadLetterQueue (snd (run_job rnd job w)))
                = jobs (deadLetterQueue w) @ [entry]
              \<and> originalJob (job_data entry) = job_data job
              \<and> dlq_attempts (job_data entry) = opt_attempts (job_opts job)))"
proof -
  have marks: "fst (markEventFailed eid err w) = None"
    "ledger (snd (markEventFailed eid err w)) = ledger w"
    "fst (markEventRouted eid w) = None"
    "ledger (snd (markEventRouted eid w)) = ledger w"
    using absent by (simp_all add: markEventFailed_eq markEventRouted_eq update_first_absent)
  have handler: "ledger (worker_on_failed (Some job) e w) = ledger w
          \<and> jobs (deadLetterQueue (worker_on_failed (Some job) e w))
              = jobs (deadLetterQueue w) @
                [new_Job (Auto (next_id (deadLetterQueue w))) ''failed-event''
                   \<lparr>originalJob = job_data job, dlq_error = exn_message e,
                    failedAt = clock w, dlq_attempts = attemptsMade job\<rparr>
                   (defaultJobOptions (deadLetterQueue w))]"
    if "eventId (job_data job) = eid"
      and "(if opt_attempts (job_opts job) = 0 then 5 else opt_attempts (job_opts job))
               \<le> attemptsMade job"
    for job e
    using that absent worker_on_failed_final[OF that(2), of e w]
    by (simp add: update_first_absent)
  have run: "ledger (snd (run_job rnd job w)) = ledger w
          \<and> (\<exists>entry. jobs (deadLetterQueue (snd (run_job rnd job w)))
                = jobs (deadLetterQueue w) @ [entry]
              \<and> originalJob (job_data entry) = job_data job
              \<and> dlq_attempts (job_data entry) = opt_attempts (job_opts job))"
    if "eventId (job_data job) = eid" and "eid = [] \<or> type (job_data job) = []"
      and "attemptsMade job < opt_attempts (job_opts job)"
    for rnd job
  proof -
    from that absent have a: "findOne (eventId (job_data job)) (ledger w) = None"
      and i: "eventId (job_data job) = [] \<or> type (job_data job) = []"
      by auto
    from run_job_invalid[OF that(3) a i, of rnd] obtain cs t where
      rj: "run_job rnd job w =
        (job\<lparr>attemptsMade := opt_attempts (job_opts job), job_state := failed\<rparr>,
         w\<lparr>deadLetterQueue := (deadLetterQueue w)
             \<lparr>jobs := jobs (deadLetterQueue w) @
                [new_Job (Auto (next_id (deadLetterQueue w))) ''failed-event''
                   \<lparr>originalJob = job_data job,
                    dlq_error = ''Event validation failed'',
                    failedAt = t, dlq_attempts = opt_attempts (job_opts job)\<rparr>
                   (defaultJobOptions (deadLetterQueue w))],
              next_id := next_id (deadLetterQueue w) + 1\<rparr>,
           clock := t, calls := calls w @ cs\<rparr>)"
      by blast
    show ?thesis
      by (simp add: rj new_Job_def)
  qed
  from marks handler run show ?thesis
    by blast
qed

theorem missing_row_not_upserted_witness:
  "findOne ''E2'' (ledger ex_world) = None
   \<and> fst (markEventFailed ''E2'' ''boom'' ex_world) = None
   \<and> ledger (snd (markEventRouted ''E2'' ex_world)) = []
   \<and> ledger (snd (run_job always_routes ex_bad_job ex_world)) = []
   \<and> (\<exists>entry. jobs (deadLetterQueue (snd (run_job always_routes ex_bad_job ex_world))) = [entry]
        \<and> dlq_attempts (job_data entry) = 5)"
proof -
  have a: "findOne ''E2'' (ledger ex_world) = None"
    by (simp add: findOne_def ex_world_def)
  have j: "eventId (job_data ex_bad_job) = ''E2''
      \<and> (''E2'' = [] \<or> type (job_data ex_bad_job) = [])
      \<and> attemptsMade ex_bad_job < opt_attempts (job_opts ex_bad_job)"
    by (simp add: ex_bad_job_def ex_bad_data_def new_Job_def eventQueue_options_def
        MAX_RETRY_ATTEMPTS_def)
  note inst = missing_row_not_upserted[OF a, of "''boom''"]
  from inst have m: "fst (markEventFailed ''E2'' ''boom'' ex_world) = None"
    "ledger (snd (markEventRouted ''E2'' ex_world)) = ledger ex_world"
    by blast+
  from inst j have r: "ledger (snd (run_job always_routes ex_bad_job ex_world)) = ledger ex_world
      \<and> (\<exists>entry. jobs (deadLetterQueue (snd (run_job always_routes ex_bad_job ex_world)))
                = jobs (deadLetterQueue ex_world) @ [entry]
              \<and> originalJob (job_data entry) = job_data ex_bad_job
              \<and> dlq_attempts (job_data entry) = opt_attempts (job_opts ex_bad_job))"
    by blast
  have e: "ledger ex_world = []" "jobs (deadLetterQueue ex_world) = []"
    "opt_attempts (job_opts ex_bad_job) = 5"
    by (simp_all add: ex_world_def ex_bad_job_def new_Job_def eventQueue_options_def
        MAX_RETRY_ATTEMPTS_def)
  from a m r show ?thesis
    unfolding e by auto
qed

section \<open>Properties of the replay\<close>

lemma replay_one_ok:
  "flt (job_id job) = None \<Longrightarrow>
   replay_one flt job w =
     (True, w\<lparr>eventQueue := (eventQueue w)
                 \<lparr>jobs := jobs (eventQueue w) @
                    [new_Job (Auto (next_id (eventQueue w))) ''retry'' (originalJob (job_data job))
                       (defaultJobOptions (eventQueue w))],
                  next_id := next_id (eventQueue w) + 1\<rparr>,
              deadLetterQueue := Job_remove (job_id job) (deadLetterQueue w),
              calls := calls w @ [QueueAdd ''events'' ''retry'', JobRemove ''events-dlq'' (job_id job)]\<rparr>)"
  by (simp add: replay_one_def Queue_add_def emit_def Let_def)

lemma replay_loop_ok:
  "\<forall>i. flt i = None \<Longrightarrow>
   replay_loop flt js n w =
     (n + length js,
      w\<lparr>eventQueue := (eventQueue w)
            \<lparr>jobs := jobs (eventQueue w) @
               replayed_jobs (next_id (eventQueue w)) (defaultJobOptions (eventQueue w)) js,
             next_id := next_id (eventQueue w) + length js\<rparr>,
         deadLetterQueue := (deadLetterQueue w)
            \<lparr>jobs := filter (\<lambda>j. job_id j \<notin> job_id ` set js) (jobs (deadLetterQueue w))\<rparr>,
         calls := calls w @
            concat (map (\<lambda>j. [QueueAdd ''events'' ''retry'', JobRemove ''events-dlq'' (job_id j)]) js)\<rparr>)"
proof (induction js arbitrary: n w)
  case Nil
  then show ?case by simp
next
  case (Cons j js)
  from Cons.prems have fj: "flt (job_id j) = None" by simp
  have filt: "filter (\<lambda>x. job_id x \<notin> job_id ` set js)
        (filter (\<lambda>x. job_id x \<noteq> job_id j) xs)
      = filter (\<lambda>x. job_id x \<notin> job_id ` set (j # js)) xs" for xs :: "DeadLetterEntry Job list"
    by (induction xs) auto
  show ?case
    by (simp add: replay_one_ok[where flt=flt and job=j, OF fj] Cons.IH[OF Cons.prems] Job_remove_def filt)
qed

lemma map_job_data_replayed:
  "map job_data (replayed_jobs k opts js) = map (\<lambda>j. originalJob (job_data j)) js"
  by (induction js arbitrary: k) (simp_all add: new_Job_def)

lemma fresh_replayed:
  "j \<in> set (replayed_jobs k opts js) \<Longrightarrow>
   attemptsMade j = 0 \<and> job_state j = waiting \<and> job_name j = ''retry'' \<and> job_opts j = opts"
  by (induction js arbitrary: k) (auto simp: new_Job_def)

lemma set_getJobs:
  "set (getJobs types q) = {j \<in> set (jobs q). job_state j \<in> set types}"
  by (auto simp: getJobs_def)

lemma filter_removed_ids:
  assumes "distinct (map job_id xs)"
  shows "filter (\<lambda>j. job_id j \<notin> job_id ` {j \<in> set xs. P j}) xs = filter (\<lambda>j. \<not> P j) xs"
proof (rule filter_cong[OF refl])
  fix x assume x: "x \<in> set xs"
  from assms have inj: "inj_on job_id (set xs)"
    by (simp add: distinct_map)
  show "(job_id x \<notin> job_id ` {j \<in> set xs. P j}) = (\<not> P x)"
  proof
    assume "job_id x \<notin> job_id ` {j \<in> set xs. P j}"
    with x show "\<not> P x" by auto
  next
    assume np: "\<not> P x"
    show "job_id x \<notin> job_id ` {j \<in> set xs. P j}"
    proof
      assume "job_id x \<in> job_id ` {j \<in> set xs. P j}"
      then obtain y where y: "y \<in> set xs" "P y" "job_id x = job_id y" by auto
      with inj x have "x = y" by (auto dest: inj_onD)
      with y np show False by simp
    qed
  qed
qed

text \<open>
  C6. When no queue call fails, \<^verbatim>\<open>replayDLQJobs\<close> returns the number of waiting or
  delayed dead letters, appends to the main queue one fresh job per such entry with the
  entry's original job data, removes exactly these entries from the dead-letter queue
  (all the waiting and delayed ones, the ids being distinct), and leaves the ledger as
  it is: a \<open>FAILED\<close> row stays \<open>FAILED\<close>.
\<close>

theorem replay_reenqueues:
  assumes nofault: "\<forall>i. flt i = None"
  shows "fst (replayDLQJobs flt w) = length (getJobs [waiting, delayed] (deadLetterQueue w))
    \<and> jobs (eventQueue (snd (replayDLQJobs flt w)))
        = jobs (eventQueue w) @
          replayed_jobs (next_id (eventQueue w)) (defaultJobOptions (eventQueue w))
            (getJobs [waiting, delayed] (deadLetterQueue w))
    \<and> map job_data (drop (length (jobs (eventQueue w)))
          (jobs (eventQueue (snd (replayDLQJobs flt w)))))
        = map (\<lambda>j. originalJob (job_data j)) (getJobs [waiting, delayed] (deadLetterQueue w))
    \<and> jobs (deadLetterQueue (snd (replayDLQJobs flt w)))
        = filter (\<lambda>j. job_id j \<notin> job_id ` set (getJobs [waiting, delayed] (deadLetterQueue w)))
            (jobs (deadLetterQueue w))
    \<and> (distinct (map job_id (jobs (deadLetterQueue w))) \<longrightarrow>
         jobs (deadLetterQueue (snd (replayDLQJobs flt w)))
           = filter (\<lambda>j. job_state j \<noteq> waiting \<and> job_state j \<noteq> delayed)
               (jobs (deadLetterQueue w)))
    \<and> ledger (snd (replayDLQJobs flt w)) = ledger w"
proof -
  let ?sel = "getJobs [waiting, delayed] (deadLetterQueue w)"
  have run: "replayDLQJobs flt w =
     (length ?sel,
      w\<lparr>eventQueue := (eventQueue w)
            \<lparr>jobs := jobs (eventQueue w) @
               replayed_jobs (next_id (eventQueue w)) (defaultJobOptions (eventQueue w)) ?sel,
             next_id := next_id (eventQueue w) + length ?sel\<rparr>,
         deadLetterQueue := (deadLetterQueue w)
            \<lparr>jobs := filter (\<lambda>j. job_id j \<notin> job_id ` set ?sel) (jobs (deadLetterQueue w))\<rparr>,
         calls := calls w @ QueueGetJobs ''events-dlq'' #
            concat (map (\<lambda>j. [QueueAdd ''events'' ''retry'', JobRemove ''events-dlq'' (job_id j)]) ?sel)\<rparr>)"
    by (simp add: replayDLQJobs_def replay_loop_ok[OF nofault] emit_def)
  have dist: "filter (\<lambda>j. job_id j \<notin> job_id ` set ?sel) (jobs (deadLetterQueue w))
      = filter (\<lambda>j. job_state j \<noteq> waiting \<and> job_state j \<noteq> delayed) (jobs (deadLetterQueue w))"
    if "distinct (map job_id (jobs (deadLetterQueue w)))"
    using filter_removed_ids[OF that, of "\<lambda>j. job_state j \<in> set [waiting, delayed]"]
    by (simp add: set_getJobs)
  show ?thesis
    using dist by (simp add: run map_job_data_replayed)
qed

theorem replay_reenqueues_witness:
  "fst (replayDLQJobs no_fault ex_world_dlq) = 1
   \<and> map job_data (jobs (eventQueue (snd (replayDLQJobs no_fault ex_world_dlq)))) = [ex_data]
   \<and> jobs (deadLetterQueue (snd (replayDLQJobs no_fault ex_world_dlq))) = []
   \<and> status_of ''E1'' (snd (replayDLQJobs no_fault ex_world_dlq)) = Some FAILED"
proof -
  have n: "\<forall>i. no_fault i = None" by (simp add: no_fault_def)
  have sel: "getJobs [waiting, delayed] (deadLetterQueue ex_world_dlq)
      = [new_Job (Auto 1) ''failed-event'' ex_entry \<lparr>opt_attempts = 0, backoff_delay = 0\<rparr>]"
    by (simp add: getJobs_def ex_world_dlq_def new_Job_def)
  have q: "jobs (eventQueue ex_world_dlq) = []" "jobs (deadLetterQueue ex_world_dlq)
      = [new_Job (Auto 1) ''failed-event'' ex_entry \<lparr>opt_attempts = 0, backoff_delay = 0\<rparr>]"
    "status_of ''E1'' ex_world_dlq = Some FAILED"
    by (simp_all add: ex_world_dlq_def ex_world_failed_def ex_world_def status_of_def
        findOne_def new_Event_def ex_data_def)
  from replay_reenqueues[OF n, of ex_world_dlq] show ?thesis
    unfolding sel q
    by (simp add: status_of_def new_Job_def ex_entry_def q(3)[unfolded status_of_def])
qed

section \<open>The status never returns to pending\<close>












lemma ledger_addEventToQueue: "ledger (snd (addEventToQueue fault data w)) = ledger w"
  by (simp add: addEventToQueue_def Let_def split_beta)











section \<open>Schedules\<close>

text \<open>
  The steps of \<open>processEvent_step\<close> are those of \<^verbatim>\<open>processEvent\<close>: six of them,
  from the first await on, end where the function returns, in the world it leaves.
\<close>

lemma six_steps: "(6::nat) = Suc (Suc (Suc (Suc (Suc (Suc 0)))))"
  by simp

lemma steps_processor:
  "processEvent_steps 6 rnd (job_data job) (At_eventExists, w)
     = (Returned (fst (processor rnd job w)), snd (processor rnd job w))"
proof (cases "findOne (eventId (job_data job)) (ledger w)")
  case None
  show ?thesis
  proof (cases "eventId (job_data job) = [] \<or> type (job_data job) = []")
    case True
    with None show ?thesis
      unfolding processEvent_steps_def six_steps
      by (auto simp add: processor_def processEvent_fresh_invalid eventExists_def emit_def
          createEvent_def save_def validate_def new_Event_def funpow_swap1)
  next
    case False
    with None show ?thesis
      unfolding processEvent_steps_def six_steps
      by (simp add: processor_def processEvent_fresh_valid eventExists_def emit_def
          createEvent_def save_def validate_def new_Event_def incrementEventAttempts_eq
          markEventRouted_eq simulateRoutingService_def funpow_swap1)
  qed
next
  case (Some d)
  show ?thesis
  proof (cases "status d = ROUTED")
    case True
    with Some show ?thesis
      unfolding processEvent_steps_def six_steps
      by (simp add: processor_def processEvent_skip eventExists_def getEventById_def emit_def
          funpow_swap1)
  next
    case False
    with Some show ?thesis
      unfolding processEvent_steps_def six_steps
      by (simp add: processor_def processEvent_existing eventExists_def getEventById_def emit_def
          incrementEventAttempts_eq markEventRouted_eq simulateRoutingService_def
          funpow_swap1)
  qed
qed

text \<open>
  So a job that the worker runs with nothing else in between is one of the schedules
  of the system, and it ends in the world of \<open>run_job\<close>.
\<close>

lemma run_system_append: "run_system (a @ b) s = run_system b (run_system a s)"
  by (simp add: run_system_def)

lemma processEvent_steps_Returned:
  "processEvent_steps n rnd data (Returned r, w) = (Returned r, w)"
  unfolding processEvent_steps_def by (induction n) simp_all

lemma Resume_Processor:
  assumes "\<forall>r. pc \<noteq> Returned r"
  shows "step (Resume 0 rnd) (w, [Processor job pc])
    = (snd (processEvent_step rnd (job_data job) pc w),
       [Processor job (fst (processEvent_step rnd (job_data job) pc w))])"
proof (cases pc)
  case (Returned r)
  with assms show ?thesis by simp
qed (simp_all add: split_beta del: processEvent_step.simps)

lemma attempt_schedule:
  "processEvent_steps n rnd (job_data job) (pc, w) = (Returned r, w1) \<Longrightarrow>
   \<exists>acts. run_system acts (w, [Processor job pc]) = (w1, [Processor job (Returned r)])"
proof (induction n arbitrary: pc w)
  case 0
  then have "run_system [] (w, [Processor job pc]) = (w1, [Processor job (Returned r)])"
    by (simp add: processEvent_steps_def run_system_def)
  then show ?case by blast
next
  case (Suc n)
  show ?case
  proof (cases "\<exists>r0. pc = Returned r0")
    case True
    then obtain r0 where pc: "pc = Returned r0" by blast
    with Suc.prems have "run_system [] (w, [Processor job pc]) = (w1, [Processor job (Returned r)])"
      by (simp add: processEvent_steps_Returned run_system_def)
    then show ?thesis by blast
  next
    case False
    obtain pc' w' where st: "processEvent_step rnd (job_data job) pc w = (pc', w')"
      by (cases "processEvent_step rnd (job_data job) pc w")
    have "processEvent_steps n rnd (job_data job) (pc', w') = (Returned r, w1)"
      using Suc.prems st by (simp add: processEvent_steps_def funpow_swap1)
    from Suc.IH[OF this] obtain acts where
      a: "run_system acts (w', [Processor job pc']) = (w1, [Processor job (Returned r)])"
      by blast
    have "step (Resume 0 rnd) (w, [Processor job pc]) = (w', [Processor job pc'])"
      using Resume_Processor[of pc rnd w job] False st by simp
    with a have "run_system (Resume 0 rnd # acts) (w, [Processor job pc])
        = (w1, [Processor job (Returned r)])"
      by (simp add: run_system_def)
    then show ?thesis by blast
  qed
qed

lemma processor_state: "processor rnd (job\<lparr>job_state := s\<rparr>) w = processor rnd job w"
  by (simp add: processor_def)

lemma job_schedule:
  "\<exists>acts. run_system acts (w, [Processor job At_eventExists]) = (snd (run_job rnd job w), [])"
proof (induction "opt_attempts (job_opts job) - attemptsMade job" arbitrary: job w
    rule: less_induct)
  case less
  let ?k = "attemptsMade job"
  obtain r w1 where pr: "processor (rnd ?k) job w = (r, w1)"
    by (cases "processor (rnd ?k) job w")
  have "processEvent_steps 6 (rnd ?k) (job_data job) (At_eventExists, w) = (Returned r, w1)"
    by (simp add: steps_processor pr)
  from attempt_schedule[OF this] obtain acts1 where
    a1: "run_system acts1 (w, [Processor job At_eventExists])
      = (w1, [Processor job (Returned r)])"
    by blast
  show ?case
  proof (cases r)
    case (Inr u)
    have "run_job rnd job w = (job\<lparr>attemptsMade := ?k + 1, job_state := completed\<rparr>, w1)"
      using pr Inr by (subst run_job.simps) (simp add: processor_state)
    moreover have "run_system (acts1 @ [Resume 0 (rnd ?k)]) (w, [Processor job At_eventExists])
        = (w1, [])"
      using a1 Inr by (simp add: run_system_append) (simp add: run_system_def)
    ultimately show ?thesis by (metis snd_conv)
  next
    case (Inl err)
    show ?thesis
    proof (cases "?k + 1 < opt_attempts (job_opts job)")
      case True
      let ?d = "nextDelay (job_opts job) ?k"
      let ?job1 = "job\<lparr>attemptsMade := ?k + 1, job_state := delayed\<rparr>"
      let ?w2 = "w1\<lparr>calls := calls w1 @ [ScheduleRetry (job_id job) ?d], clock := clock w1 + ?d\<rparr>"
      have rj: "run_job rnd job w = run_job rnd ?job1 ?w2"
        using pr Inl True
        by (subst run_job.simps)
          (simp add: processor_state retry_delay_def Let_def worker_on_failed_retry emit_def)
      have settle: "step (Resume 0 (rnd ?k)) (w1, [Processor job (Returned r)])
          = (?w2, [Processor ?job1 At_eventExists])"
        using Inl True by (simp add: retry_delay_def Let_def emit_def)
      have "opt_attempts (job_opts ?job1) - attemptsMade ?job1
          < opt_attempts (job_opts job) - attemptsMade job"
        using True by simp
      from less[OF this, of ?w2] obtain acts2 where
        a2: "run_system acts2 (?w2, [Processor ?job1 At_eventExists])
          = (snd (run_job rnd ?job1 ?w2), [])"
        by blast
      have "run_system (acts1 @ Resume 0 (rnd ?k) # acts2) (w, [Processor job At_eventExists])
          = (snd (run_job rnd job w), [])"
        unfolding run_system_append a1 rj
        using settle a2 by (simp add: run_system_def)
      then show ?thesis by blast
    next
      case False
      let ?job1 = "job\<lparr>attemptsMade := ?k + 1, job_state := failed\<rparr>"
      have rj: "run_job rnd job w = (?job1, worker_on_failed (Some ?job1) err w1)"
        using pr Inl False
        by (subst run_job.simps) (simp add: processor_state retry_delay_def Let_def)
      show ?thesis
      proof (cases "(if opt_attempts (job_opts job) = 0 then 5 else opt_attempts (job_opts job))
          \<le> ?k + 1")
        case final: True
        have "run_system (acts1 @ [Resume 0 (rnd ?k), Resume 0 (rnd ?k), Resume 0 (rnd ?k)])
            (w, [Processor job At_eventExists])
          = (worker_on_failed (Some ?job1) err w1, [])"
          unfolding run_system_append a1
          using Inl False final
          by (simp add: run_system_def retry_delay_def Let_def worker_on_failed_def)
        with rj show ?thesis by (metis snd_conv)
      next
        case nofinal: False
        with False have z: "opt_attempts (job_opts job) = 0" "?k + 1 < 5"
          by (auto split: if_splits)
        have "run_system (acts1 @ [Resume 0 (rnd ?k)]) (w, [Processor job At_eventExists])
          = (worker_on_failed (Some ?job1) err w1, [])"
          unfolding run_system_append a1
          using Inl z
          by (simp add: run_system_def retry_delay_def Let_def worker_on_failed_def)
        with rj show ?thesis by (metis snd_conv)
      qed
    qed
  qed
qed

lemma run_job_is_a_schedule:
  "\<exists>acts. run_system (Take job # acts) (w, []) = (snd (run_job rnd job w), [])"
proof -
  from job_schedule[of w job rnd] obtain acts where
    "run_system acts (w, [Processor job At_eventExists]) = (snd (run_job rnd job w), [])"
    by blast
  then have "run_system (Take job # acts) (w, []) = (snd (run_job rnd job w), [])"
    by (simp add: run_system_def)
  then show ?thesis by blast
qed

text \<open>
  Neither is \<open>ROUTED\<close> kept by the code itself: the update of \<^verbatim>\<open>markEventFailed\<close>
  does not look at the status it replaces. In the schedule \<open>ex_race\<close> the event is
  \<open>FAILED\<close> at the start and \<open>ROUTED\<close> once the replayed job has marked it; then the
  other job, whose last attempt had passed the look-up of the row before that, is
  counted as failed for good, and its handler sets the row to \<open>FAILED\<close>.
\<close>

lemma routed_overwritten_by_late_failure:
  "status_of ''E1'' ex_world_failed = Some FAILED
   \<and> status_of ''E1'' (fst (run_system ex_race (ex_world_failed, []))) = Some ROUTED
   \<and> status_of ''E1''
        (fst (run_system (ex_race @ [Resume 0 (1 / 20), Resume 0 (1 / 20)])
           (ex_world_failed, []))) = Some FAILED"
  by (simp add: ex_race_def ex_failed_attempt_def run_system_def ex_job_def ex_retry_job_def
      new_Job_def ex_data_def ex_world_failed_def ex_world_def new_Event_def
      eventExists_def getEventById_def incrementEventAttempts_eq markEventRouted_eq
      simulateRoutingService_def findOne_def status_of_def emit_def ROUTING_DELAY_MS_def
      eventQueue_options_def MAX_RETRY_ATTEMPTS_def RETRY_DELAY_def retry_delay_def
      handleFinalFailure_def markEventFailed_eq nextDelay_def)

section \<open>Properties of the ingestion handler\<close>

lemma addEventToQueue_eq:
  "addEventToQueue fault data w =
     (if fault (eventId data)
      then (Inl QueueFault, w\<lparr>calls := calls w @ [QueueAdd ''events'' ''process-event'']\<rparr>)
      else (Inr (fst (Queue_add ''process-event'' data (Some (eventId data)) (eventQueue w))),
            w\<lparr>eventQueue := snd (Queue_add ''process-event'' data (Some (eventId data)) (eventQueue w)),
              calls := calls w @ [QueueAdd ''events'' ''process-event'']\<rparr>))"
  by (simp add: addEventToQueue_def Let_def emit_def split_beta)

lemma ingestEvent_eq:
  "ingestEvent rt req w =
     (ingest_response rt req,
      if statusCode (ingest_response rt req) = 202
      then w\<lparr>eventQueue := snd (Queue_add ''process-event''
                  \<lparr>eventId = (case truthy (body_eventId (body req)) of Some e \<Rightarrow> e | None \<Rightarrow> []),
                   type = (case truthy (body_type (body req)) of Some t \<Rightarrow> t | None \<Rightarrow> []),
                   payload = (case body_payload (body req) of Some p \<Rightarrow> p | None \<Rightarrow> []),
                   correlationId = Some (case truthy (req_correlationId req) of
                      Some c \<Rightarrow> c
                    | None \<Rightarrow> (case truthy (x_correlation_id req) of
                              Some c \<Rightarrow> c
                            | None \<Rightarrow> randomUUID rt))\<rparr>
                  (Some (case truthy (body_eventId (body req)) of Some e \<Rightarrow> e | None \<Rightarrow> []))
                  (eventQueue w)),
             calls := calls w @ [QueueAdd ''events'' ''process-event''],
             clock := clock w + enqueue_ms rt\<rparr>
      else if statusCode (ingest_response rt req) = 500 \<and> truthy (HMAC_SECRET rt) \<noteq> None
      then w\<lparr>calls := calls w @ [QueueAdd ''events'' ''process-event'']\<rparr>
      else w)"
proof (cases "truthy (HMAC_SECRET rt)")
  case None
  then show ?thesis
    by (simp add: ingestEvent_def ingest_response_def Let_def)
next
  case secret: (Some secret)
  show ?thesis
  proof (cases "rawBody req")
    case None
    with secret show ?thesis
      by (simp add: ingestEvent_def ingest_response_def Let_def)
  next
    case raw: (Some raw)
    show ?thesis
    proof (cases "validateHMAC (hmac_sha256 rt) (JSON_stringify rt) (Buf raw)
        (case x_hmac_signature req of Some s \<Rightarrow> s | None \<Rightarrow> []) secret")
      case False
      with secret raw show ?thesis
        by (simp add: ingestEvent_def ingest_response_def Let_def)
    next
      case valid: True
      show ?thesis
      proof (cases "truthy (body_eventId (body req))")
        case None
        with secret raw valid show ?thesis
          by (simp add: ingestEvent_def ingest_response_def Let_def)
      next
        case eid: (Some eid)
        show ?thesis
        proof (cases "truthy (body_type (body req))")
          case None
          with secret raw valid eid show ?thesis
            by (simp add: ingestEvent_def ingest_response_def Let_def)
        next
          case ty: (Some ty)
          show ?thesis
          proof (cases "body_payload (body req)")
            case None
            with secret raw valid eid ty show ?thesis
              by (simp add: ingestEvent_def ingest_response_def Let_def)
          next
            case (Some pl)
            with secret raw valid eid ty show ?thesis
              by (simp add: ingestEvent_def ingest_response_def Let_def addEventToQueue_eq)
          qed
        qed
      qed
    qed
  qed
qed

lemma fst_ingestEvent: "fst (ingestEvent rt req w) = ingest_response rt req"
  by (simp add: ingestEvent_eq)

text \<open>
  C8. The response of \<^verbatim>\<open>ingestEvent\<close> is a function of the request and of the
  handler's own environment: it is the same in any two worlds, so in particular after
  runs of the worker with any two behaviours of the routing service. The handler leaves
  the ledger and the dead-letter queue as they are, and the only call it makes is the
  one \<^verbatim>\<open>add\<close> to the main queue, made exactly when the request passed the checks.
\<close>

theorem ingest_independent_of_routing:
  "fst (ingestEvent rt req w) = ingest_response rt req
   \<and> fst (ingestEvent rt req (snd (run_job rnd1 job w1)))
       = fst (ingestEvent rt req (snd (run_job rnd2 job w2)))
   \<and> ledger (snd (ingestEvent rt req w)) = ledger w
   \<and> deadLetterQueue (snd (ingestEvent rt req w)) = deadLetterQueue w
   \<and> new_calls w (snd (ingestEvent rt req w)) =
       (if statusCode (fst (ingestEvent rt req w)) = 202
           \<or> statusCode (fst (ingestEvent rt req w)) = 500 \<and> truthy (HMAC_SECRET rt) \<noteq> None
        then [QueueAdd ''events'' ''process-event''] else [])"
  by (simp add: ingestEvent_eq new_calls_def)

section \<open>Properties of the signatures\<close>

lemma length_concat_hex: "length (concat (map hex_byte bs)) = 2 * length bs"
  by (induction bs) (simp_all add: hex_byte_def)

lemma length_digest_hex: "length (digest_hex h) = 64"
  unfolding digest_hex_def length_concat_hex digest_bytes_def by simp

lemma digest_hex_nonempty: "digest_hex h \<noteq> []"
  using length_digest_hex[of h] by auto

text \<open>
  C10. For an object that \<^verbatim>\<open>JSON.stringify\<close> prints and a non-empty secret,
  \<^verbatim>\<open>generateHMAC\<close> returns a signature that \<^verbatim>\<open>validateHMAC\<close> accepts for the object,
  for its printed string and for the bytes of that string; and \<^verbatim>\<open>validateHMAC\<close>
  returns false, whatever the payload, when the signature or the secret is empty.
\<close>

theorem hmac_roundtrip:
  assumes ser: "stringify p = Some s" and key: "secret \<noteq> []"
  shows "generateHMAC H stringify p secret = Inr (digest_hex (H secret (Buffer_from_string s)))
    \<and> validateHMAC H stringify (Obj p) (digest_hex (H secret (Buffer_from_string s))) secret
    \<and> validateHMAC H stringify (Str s) (digest_hex (H secret (Buffer_from_string s))) secret
    \<and> validateHMAC H stringify (Buf (Buffer_from_string s))
          (digest_hex (H secret (Buffer_from_string s))) secret
    \<and> \<not> validateHMAC H stringify q [] sec
    \<and> \<not> validateHMAC H stringify q sg []"
  using ser key
  by (simp add: generateHMAC_def validateHMAC_def digest_hex_nonempty Let_def)

theorem hmac_roundtrip_witness:
  "generateHMAC ex_H ex_stringify (JObj []) ''test-secret-key''
     = Inr (digest_hex (ex_H ''test-secret-key'' (Buffer_from_string ''{}'')))
   \<and> validateHMAC ex_H ex_stringify (Obj (JObj []))
        (digest_hex (ex_H ''test-secret-key'' (Buffer_from_string ''{}''))) ''test-secret-key''
   \<and> \<not> validateHMAC ex_H ex_stringify (Obj (JObj [])) [] ''test-secret-key''"
proof -
  have s: "ex_stringify (JObj []) = Some ''{}''"
    by (simp add: ex_stringify_def)
  have k: "''test-secret-key'' \<noteq> []" by simp
  from hmac_roundtrip[where stringify=ex_stringify and H=ex_H and q="Obj (JObj [])"
      and sec="''test-secret-key''", OF s k]
  show ?thesis
    by simp
qed

end
